theory Spec2Isabelle
  imports Complex_Main
begin

section \<open>JavaScript numbers\<close>

text \<open>
  The script computes with JavaScript Numbers. A Number is modelled as an exact real
  extended with the three special values \<open>Infinity\<close>, \<open>-Infinity\<close> and \<open>NaN\<close>.
  The rounding of IEEE doubles is not modelled (arithmetic on finite values is exact and
  never overflows), and the sign of zero is not tracked: every zero is \<open>+0\<close>, which is
  what \<open>a - a\<close> gives and what the host supplies as a frame rate or a time.
\<close>

datatype jsnum = Fin real | PInf | NInf | NaN

fun js_neg :: "jsnum \<Rightarrow> jsnum" where
  "js_neg (Fin a) = Fin (- a)"
| "js_neg PInf = NInf"
| "js_neg NInf = PInf"
| "js_neg NaN = NaN"

fun js_abs :: "jsnum \<Rightarrow> jsnum" where
  "js_abs (Fin a) = Fin \<bar>a\<bar>"
| "js_abs PInf = PInf"
| "js_abs NInf = PInf"
| "js_abs NaN = NaN"

fun js_add :: "jsnum \<Rightarrow> jsnum \<Rightarrow> jsnum" where
  "js_add NaN _ = NaN"
| "js_add _ NaN = NaN"
| "js_add (Fin a) (Fin b) = Fin (a + b)"
| "js_add PInf NInf = NaN"
| "js_add NInf PInf = NaN"
| "js_add PInf _ = PInf"
| "js_add NInf _ = NInf"
| "js_add (Fin a) b = b"

definition js_sub :: "jsnum \<Rightarrow> jsnum \<Rightarrow> jsnum" where
  "js_sub a b = js_add a (js_neg b)"

text \<open>The infinity of a given sign: \<open>True\<close> is the negative one.\<close>

definition js_inf :: "bool \<Rightarrow> jsnum" where
  "js_inf negative = (if negative then NInf else PInf)"

fun js_mul :: "jsnum \<Rightarrow> jsnum \<Rightarrow> jsnum" where
  "js_mul NaN _ = NaN"
| "js_mul _ NaN = NaN"
| "js_mul (Fin a) (Fin b) = Fin (a * b)"
| "js_mul (Fin a) b = (if a = 0 then NaN else js_inf ((a < 0) \<noteq> (b = NInf)))"
| "js_mul a (Fin b) = (if b = 0 then NaN else js_inf ((a = NInf) \<noteq> (b < 0)))"
| "js_mul a b = js_inf ((a = NInf) \<noteq> (b = NInf))"

fun js_div :: "jsnum \<Rightarrow> jsnum \<Rightarrow> jsnum" where
  "js_div NaN _ = NaN"
| "js_div _ NaN = NaN"
| "js_div (Fin a) (Fin b) =
     (if b = 0 then (if a = 0 then NaN else js_inf (a < 0)) else Fin (a / b))"
| "js_div (Fin a) b = Fin 0"
| "js_div a (Fin b) = js_inf ((a = NInf) \<noteq> (b < 0))"
| "js_div a b = NaN"

text \<open>The relational operator \<open>a > b\<close>: false as soon as one side is \<open>NaN\<close>.\<close>

fun js_gt :: "jsnum \<Rightarrow> jsnum \<Rightarrow> bool" where
  "js_gt NaN _ = False"
| "js_gt _ NaN = False"
| "js_gt (Fin a) (Fin b) = (a > b)"
| "js_gt PInf b = (b \<noteq> PInf)"
| "js_gt NInf _ = False"
| "js_gt (Fin a) b = (b = NInf)"

text \<open>Strict equality \<open>a === b\<close> on Numbers: \<open>NaN\<close> equals nothing.\<close>

definition js_eq :: "jsnum \<Rightarrow> jsnum \<Rightarrow> bool" where
  "js_eq a b = (a \<noteq> NaN \<and> a = b)"

section \<open>Errors\<close>

text \<open>
  \<open>Error msg\<close> is \<open>throw new Error(msg)\<close>; \<open>TypeError\<close> is the exception the
  engine throws when a property of \<open>undefined\<close> is read. \<open>NotModelled\<close> marks the
  places where this development gives no answer, both in the printing of numbers: the
  digits of a Number of magnitude \<open>2^39\<close> or more, where the doubles lie further
  apart than \<open>0.0001\<close>, and the exponent notation that \<open>toFixed\<close> hands over to from
  \<open>1e21\<close> on.
\<close>

datatype error = Error string | TypeError | NotModelled

definition bind :: "error + 'a \<Rightarrow> ('a \<Rightarrow> error + 'b) \<Rightarrow> error + 'b" where
  "bind m f = (case m of Inl e \<Rightarrow> Inl e | Inr a \<Rightarrow> f a)"

section \<open>The classes Point, PathCommand and Path\<close>

record Point =
  x :: jsnum
  y :: jsnum

record PathCommand =
  command :: string
  points :: "Point list"

record Path =
  commands :: "PathCommand list"

text \<open>
  The constructor's loop \<open>for (i = 0; i < coordinates.length; i += 2)\<close>, which pairs the
  coordinates up. It only runs on an even number of coordinates.
\<close>

fun coordinatePoints :: "jsnum list \<Rightarrow> Point list" where
  "coordinatePoints (a # b # cs) = \<lparr>x = a, y = b\<rparr> # coordinatePoints cs"
| "coordinatePoints _ = []"

definition new_PathCommand :: "string \<Rightarrow> jsnum list \<Rightarrow> error + PathCommand" where
  "new_PathCommand cmd coordinates =
     (if length coordinates mod 2 = 0
      then Inr \<lparr>command = cmd, points = coordinatePoints coordinates\<rparr>
      else Inl (Error ''Must provide an even number of coordinates when instantiating a PathCommand.''))"

text \<open>
  \<open>new Path(startX, startY)\<close>: an argument that is not a number (\<open>undefined\<close>) is
  \<open>None\<close>.
\<close>

definition new_Path :: "jsnum option \<Rightarrow> jsnum option \<Rightarrow> error + Path" where
  "new_Path startX startY =
     (case (startX, startY) of
        (Some sx, Some sy) \<Rightarrow>
          bind (new_PathCommand ''M'' [sx, sy]) (\<lambda>moveCommand. Inr \<lparr>commands = [moveCommand]\<rparr>)
      | _ \<Rightarrow> Inr \<lparr>commands = []\<rparr>)"

text \<open>
  \<open>Path.prototype.invertYAxis\<close> on values: \<open>point.y *= -1\<close> for every point of every
  command. The source updates the Point objects in place; the store model of the last
  section shows that, on a path whose points are distinct objects, the in-place update
  reads back as this function.
\<close>

definition invertPoint :: "Point \<Rightarrow> Point" where
  "invertPoint point = point\<lparr>y := js_mul (y point) (Fin (- 1))\<rparr>"

definition invertYAxis :: "Path \<Rightarrow> Path" where
  "invertYAxis path =
     path\<lparr>commands := map (\<lambda>c. c\<lparr>points := map invertPoint (points c)\<rparr>) (commands path)\<rparr>"

text \<open>
  \<open>Path.prototype.getEndPoint\<close>. With no command, \<open>lastCommand\<close> is \<open>undefined\<close> and
  reading its \<open>points\<close> throws; with a last command that has no point the result is
  \<open>undefined\<close>, here \<open>None\<close>.
\<close>

definition getEndPoint :: "Path \<Rightarrow> error + Point option" where
  "getEndPoint path =
     (if commands path = [] then Inl TypeError
      else let lastCommand = last (commands path) in
        if points lastCommand = [] then Inr None
        else Inr (Some (last (points lastCommand))))"

section \<open>The host: an animated property\<close>

datatype KeyframeInterpolationType = LINEAR | BEZIER | HOLD

record KeyframeEase =
  speed :: jsnum
  influence :: jsnum

text \<open>
  A key's value is a number or, for a property with several dimensions, an array, which
  the host never gives empty. The host gives every key value the shape of
  \<open>property.value\<close>, so the test \<open>property.value instanceof Array\<close> is decided by
  the key value itself.
\<close>

datatype KeyValue = Scalar jsnum | Array jsnum "jsnum list"

record Property =
  numKeys :: nat
  keyTime :: "nat \<Rightarrow> jsnum"
  keyValue :: "nat \<Rightarrow> KeyValue"
  keyOutInterpolationType :: "nat \<Rightarrow> KeyframeInterpolationType"
  keyInInterpolationType :: "nat \<Rightarrow> KeyframeInterpolationType"
  keyOutTemporalEase :: "nat \<Rightarrow> KeyframeEase list"
  keyInTemporalEase :: "nat \<Rightarrow> KeyframeEase list"

fun firstValue :: "KeyValue \<Rightarrow> jsnum" where
  "firstValue (Array v vs) = v"
| "firstValue (Scalar v) = v"

section \<open>Tween data, ease type and control points\<close>

record TweenData =
  startTime :: jsnum
  endTime :: jsnum
  durationTime :: jsnum
  startFrame :: jsnum
  endFrame :: jsnum
  durationFrames :: jsnum
  startValue :: jsnum
  endValue :: jsnum

definition calcTweenData :: "jsnum \<Rightarrow> Property \<Rightarrow> nat \<Rightarrow> nat \<Rightarrow> TweenData" where
  "calcTweenData framerate property startIndex endIndex =
     (let startTime' = keyTime property startIndex;
          endTime' = keyTime property endIndex;
          durationTime' = js_sub endTime' startTime';
          startFrame' = js_mul startTime' framerate;
          endFrame' = js_mul endTime' framerate;
          durationFrames' = js_sub endFrame' startFrame'
      in \<lparr>startTime = startTime', endTime = endTime', durationTime = durationTime',
          startFrame = startFrame', endFrame = endFrame', durationFrames = durationFrames',
          startValue = firstValue (keyValue property startIndex),
          endValue = firstValue (keyValue property endIndex)\<rparr>)"

definition calcEaseType :: "Property \<Rightarrow> nat \<Rightarrow> nat \<Rightarrow> string" where
  "calcEaseType property startIndex endIndex =
     (let startInterpolation = keyOutInterpolationType property startIndex;
          endInterpolation = keyInInterpolationType property endIndex
      in if startInterpolation = LINEAR \<and> endInterpolation = LINEAR then ''linear-linear''
         else if startInterpolation = LINEAR \<and> endInterpolation = BEZIER then ''linear-bezier''
         else if startInterpolation = BEZIER \<and> endInterpolation = LINEAR then ''bezier-linear''
         else if startInterpolation = BEZIER \<and> endInterpolation = BEZIER then ''bezier-bezier''
         else ''unsupported'')"

text \<open>
  \<open>outgoingEase[0].speed\<close> throws a TypeError when the host's array of eases is
  empty.
\<close>

definition calcOutgoingControlPoint ::
  "jsnum \<Rightarrow> TweenData \<Rightarrow> Property \<Rightarrow> nat \<Rightarrow> error + Point" where
  "calcOutgoingControlPoint framerate tweenData property keyIndex =
     (case keyOutTemporalEase property keyIndex of
        [] \<Rightarrow> Inl TypeError
      | outgoingEase0 # _ \<Rightarrow>
          let outgoingSpeed = speed outgoingEase0;
              outgoingInfluence = js_div (influence outgoingEase0) (Fin 100);
              m = js_div outgoingSpeed framerate;
              x' = js_mul (durationFrames tweenData) outgoingInfluence;
              b = startValue tweenData;
              y' = js_add (js_mul m x') b;
              correctedX = js_add (startFrame tweenData) x'
          in Inr \<lparr>x = correctedX, y = y'\<rparr>)"

definition calcIncomingControlPoint ::
  "jsnum \<Rightarrow> TweenData \<Rightarrow> Property \<Rightarrow> nat \<Rightarrow> error + Point" where
  "calcIncomingControlPoint framerate tweenData property keyIndex =
     (case keyInTemporalEase property (keyIndex + 1) of
        [] \<Rightarrow> Inl TypeError
      | incomingEase0 # _ \<Rightarrow>
          let incomingSpeed = speed incomingEase0;
              incomingInfluence = js_div (influence incomingEase0) (Fin 100);
              m = js_div (js_neg incomingSpeed) framerate;
              x' = js_mul (durationFrames tweenData) incomingInfluence;
              b = endValue tweenData;
              y' = js_add (js_mul m x') b;
              correctedX = js_sub (endFrame tweenData) x'
          in Inr \<lparr>x = correctedX, y = y'\<rparr>)"

text \<open>
  The second script of the repository has its own \<open>calcIncomingControlPoint\<close>, which
  differs in the slope: \<open>Math.abs(incomingSpeed) / framerate\<close>.
\<close>

definition calcIncomingControlPoint2 ::
  "jsnum \<Rightarrow> TweenData \<Rightarrow> Property \<Rightarrow> nat \<Rightarrow> error + Point" where
  "calcIncomingControlPoint2 framerate tweenData property keyIndex =
     (case keyInTemporalEase property (keyIndex + 1) of
        [] \<Rightarrow> Inl TypeError
      | incomingEase0 # _ \<Rightarrow>
          let incomingSpeed = speed incomingEase0;
              incomingInfluence = js_div (influence incomingEase0) (Fin 100);
              m = js_div (js_abs incomingSpeed) framerate;
              x' = js_mul (durationFrames tweenData) incomingInfluence;
              b = endValue tweenData;
              y' = js_add (js_mul m x') b;
              correctedX = js_sub (endFrame tweenData) x'
          in Inr \<lparr>x = correctedX, y = y'\<rparr>)"

section \<open>Building the path\<close>

text \<open>
  What the user sees of a run: the \<open>alert\<close> dialogs and the texts handed to the
  clipboard, in order. The diagnostic \<open>log\<close> calls, which the flag \<open>debug\<close> gates
  and which write to the toolkit's console only, are left out. A computation that alerts
  returns its events together with its result; the events of a computation that throws
  have been shown before the exception.
\<close>

datatype event = Alert string | Clipboard string

definition bind_io ::
  "event list \<times> (error + 'a) \<Rightarrow> ('a \<Rightarrow> event list \<times> (error + 'b)) \<Rightarrow> event list \<times> (error + 'b)" where
  "bind_io m f =
     (case m of
        (evs, Inl e) \<Rightarrow> (evs, Inl e)
      | (evs, Inr a) \<Rightarrow> (case f a of (evs', r) \<Rightarrow> (evs @ evs', r)))"

definition getCommand :: "jsnum \<Rightarrow> Property \<Rightarrow> nat \<Rightarrow> event list \<times> (error + PathCommand)" where
  "getCommand framerate property keyIndex =
     (let tweenData = calcTweenData framerate property keyIndex (keyIndex + 1);
          easeType = calcEaseType property keyIndex (keyIndex + 1)
      in if easeType = ''linear-linear''
         then ([], new_PathCommand ''L'' [endFrame tweenData, endValue tweenData])
         else
           (if easeType = ''unsupported''
            then [Alert ''This keyframe pair uses an unsupported pair of ease types, results may be inaccurate.'']
            else [],
            bind (new_PathCommand ''C'' []) (\<lambda>command'.
            bind (calcOutgoingControlPoint framerate tweenData property keyIndex) (\<lambda>outgoing.
            bind (calcIncomingControlPoint framerate tweenData property keyIndex) (\<lambda>incoming.
            Inr (command'\<lparr>points := points command' @
                   [outgoing, incoming, \<lparr>x = endFrame tweenData, y = endValue tweenData\<rparr>]\<rparr>))))))"

text \<open>
  The loop \<open>for (var i = 1; i < property.numKeys; i++)\<close> of \<open>getPath\<close>, over the list
  of the indices it visits.
\<close>

fun getPath_loop ::
  "jsnum \<Rightarrow> Property \<Rightarrow> nat list \<Rightarrow> Path \<Rightarrow> event list \<times> (error + Path)" where
  "getPath_loop framerate property [] path = ([], Inr path)"
| "getPath_loop framerate property (i # is) path =
     bind_io (getCommand framerate property i) (\<lambda>command'.
       getPath_loop framerate property is (path\<lparr>commands := commands path @ [command']\<rparr>))"

text \<open>The path of \<open>getPath\<close> as it is when the loop is left, before the end point is looked at.\<close>

definition getPath_built :: "jsnum \<Rightarrow> Property \<Rightarrow> event list \<times> (error + Path)" where
  "getPath_built framerate property =
     (let curveStartFrame = js_mul (keyTime property 1) framerate;
          curveStartValue = firstValue (keyValue property 1)
      in bind_io ([], new_Path (Some curveStartFrame) (Some curveStartValue)) (\<lambda>path.
           getPath_loop framerate property [1 ..< numKeys property] path))"

text \<open>
  \<open>getPath\<close>: \<open>None\<close> is the \<open>null\<close> returned for a property with at most one key.
  Reading \<open>endPoint.y\<close> throws when \<open>getEndPoint\<close> returned \<open>undefined\<close>.
\<close>

definition getPath :: "jsnum \<Rightarrow> Property \<Rightarrow> event list \<times> (error + Path option)" where
  "getPath framerate property =
     (if numKeys property \<le> 1 then ([], Inr None)
      else
        let curveStartValue = firstValue (keyValue property 1)
        in bind_io (getPath_built framerate property) (\<lambda>path.
             ([], bind (getEndPoint path) (\<lambda>endPoint.
                    case endPoint of
                      None \<Rightarrow> Inl TypeError
                    | Some endPoint' \<Rightarrow>
                        Inr (Some (if js_gt (y endPoint') curveStartValue
                                   then invertYAxis path else path))))))"

section \<open>Numbers as text\<close>

text \<open>
  The built-ins the script formats numbers with, after the ECMAScript standard:
  \<open>Number.prototype.toFixed\<close>, \<open>parseFloat\<close> and the conversion of a Number to a
  String that \<open>+\<close> applies to it.
\<close>

definition digitChar :: "nat \<Rightarrow> char" where
  "digitChar d = ''0123456789'' ! d"

definition isDigit :: "char \<Rightarrow> bool" where
  "isDigit c = (c \<in> set ''0123456789'')"

definition digitValue :: "char \<Rightarrow> nat" where
  "digitValue c = of_char c - 48"

text \<open>The decimal digits of a natural number, most significant first.\<close>

fun digitsOfNat :: "nat \<Rightarrow> string" where
  "digitsOfNat n =
     (if n < 10 then [digitChar n] else digitsOfNat (n div 10) @ [digitChar (n mod 10)])"

declare digitsOfNat.simps [simp del]

definition natOfDigits :: "string \<Rightarrow> nat" where
  "natOfDigits ds = foldl (\<lambda>a c. 10 * a + digitValue c) 0 ds"

text \<open>
  \<open>num.toFixed(f)\<close>: the sign, then the integer \<open>n\<close> for which \<open>n / 10^f\<close> is
  nearest to the magnitude (the larger one of two), written with \<open>f\<close> digits after the
  point. From \<open>1e21\<close> on the standard hands over to the exponent notation.
\<close>

definition toFixed :: "nat \<Rightarrow> jsnum \<Rightarrow> error + string" where
  "toFixed f num =
     (case num of
        NaN \<Rightarrow> Inr ''NaN''
      | PInf \<Rightarrow> Inr ''Infinity''
      | NInf \<Rightarrow> Inr ''-Infinity''
      | Fin r \<Rightarrow>
          let s = (if r < 0 then ''-'' else '''');
              a = \<bar>r\<bar>
          in if a \<ge> 10 ^ 21 then Inl NotModelled
             else
               let n = nat \<lfloor>a * 10 ^ f + 1 / 2\<rfloor>;
                   m = digitsOfNat n;
                   m' = (if f \<noteq> 0
                         then let z = (if length m \<le> f
                                       then replicate (f + 1 - length m) CHR ''0'' @ m else m);
                                  k = length z
                              in take (k - f) z @ ''.'' @ drop (k - f) z
                         else m)
               in Inr (s @ m'))"

text \<open>
  \<open>parseFloat(string)\<close>: an optional sign, then \<open>Infinity\<close> or the longest run of
  digits with an optional fraction; \<open>NaN\<close> when there is no digit. Leading white space
  and an exponent part, which \<open>toFixed\<close> does not produce below \<open>1e21\<close>, are not
  read.
\<close>

definition parseFloat :: "string \<Rightarrow> jsnum" where
  "parseFloat string =
     (let negative = (take 1 string = ''-'');
          unsigned = (if take 1 string = ''-'' \<or> take 1 string = ''+'' then drop 1 string else string)
      in if take 8 unsigned = ''Infinity'' then js_inf negative
         else
           let integerDigits = takeWhile isDigit unsigned;
               rest = dropWhile isDigit unsigned;
               fractionDigits = (if take 1 rest = ''.'' then takeWhile isDigit (drop 1 rest) else [])
           in if integerDigits = [] \<and> fractionDigits = [] then NaN
              else
                let magnitude = real (natOfDigits integerDigits) +
                                real (natOfDigits fractionDigits) / 10 ^ length fractionDigits
                in Fin (if negative then - magnitude else magnitude))"

text \<open>
  \<open>isNaN(string)\<close> converts its argument to a Number first. On the texts \<open>toFixed\<close>
  returns, that conversion reads what \<open>parseFloat\<close> reads.
\<close>

definition isNaN :: "string \<Rightarrow> bool" where
  "isNaN string = (parseFloat string = NaN)"

text \<open>
  The conversion of a Number to a String. For a finite number it prints the shortest
  decimal that reads back as the same double. For a multiple of \<open>0.0001\<close> of
  magnitude below \<open>2^39\<close>, where neighbouring doubles are less than \<open>0.0001\<close>
  apart, that is the number's own decimal: the digits of the integer part and, when
  there is a fraction, a point and the digits of the fraction without trailing zeros,
  which \<open>decimalDigits\<close> writes out. The conversion is given here for these numbers,
  among which are the numbers \<open>cleanNumber\<close> returns below \<open>2^39\<close>; from
  \<open>2^39\<close> on the shortest decimal of the double can have fewer digits.
\<close>

definition decimalDigits :: "real \<Rightarrow> string" where
  "decimalDigits r =
     (let n = nat \<lfloor>\<bar>r\<bar> * 10 ^ 4\<rfloor>;
          integerDigits = digitsOfNat (n div 10 ^ 4);
          padded = digitsOfNat (n mod 10 ^ 4);
          fractionDigits = rev (dropWhile (\<lambda>c. c = CHR ''0'')
                             (rev (replicate (4 - length padded) CHR ''0'' @ padded)))
      in (if r < 0 then ''-'' else '''') @ integerDigits @
         (if fractionDigits = [] then [] else ''.'' @ fractionDigits))"

definition numberToString :: "jsnum \<Rightarrow> error + string" where
  "numberToString num =
     (case num of
        NaN \<Rightarrow> Inr ''NaN''
      | PInf \<Rightarrow> Inr ''Infinity''
      | NInf \<Rightarrow> Inr ''-Infinity''
      | Fin r \<Rightarrow>
          if \<bar>r\<bar> \<ge> 2 ^ 39 \<or> real_of_int \<lfloor>\<bar>r\<bar> * 10 ^ 4\<rfloor> \<noteq> \<bar>r\<bar> * 10 ^ 4
          then Inl NotModelled
          else Inr (decimalDigits r))"

section \<open>Serialising the path\<close>

definition cleanNumber :: "jsnum \<Rightarrow> error + jsnum" where
  "cleanNumber num = bind (toFixed 4 num) (\<lambda>s. Inr (parseFloat s))"

text \<open>
  \<open>Point.prototype.toString\<close>: \<open>cleanNumber(this.x) + ',' + cleanNumber(this.y)\<close>,
  where \<open>+\<close> converts each cleaned Number to a String.
\<close>

definition Point_toString :: "Point \<Rightarrow> error + string" where
  "Point_toString point =
     bind (cleanNumber (x point)) (\<lambda>cleanX.
     bind (numberToString cleanX) (\<lambda>stringX.
     bind (cleanNumber (y point)) (\<lambda>cleanY.
     bind (numberToString cleanY) (\<lambda>stringY.
     Inr (stringX @ '','' @ stringY)))))"

text \<open>The loop of \<open>PathCommand.prototype.toString\<close>, at index \<open>i\<close> with the text so far.\<close>

fun PathCommand_toString_loop :: "Point list \<Rightarrow> nat \<Rightarrow> string \<Rightarrow> error + string" where
  "PathCommand_toString_loop [] i string = Inr string"
| "PathCommand_toString_loop (point # rest) i string =
     bind (Point_toString point) (\<lambda>s.
       PathCommand_toString_loop rest (i + 1) ((if i \<ge> 1 then string @ '','' else string) @ s))"

definition PathCommand_toString :: "PathCommand \<Rightarrow> error + string" where
  "PathCommand_toString c = PathCommand_toString_loop (points c) 0 (command c)"

fun Path_toString_loop :: "PathCommand list \<Rightarrow> string \<Rightarrow> error + string" where
  "Path_toString_loop [] string = Inr string"
| "Path_toString_loop (c # rest) string =
     bind (PathCommand_toString c) (\<lambda>s. Path_toString_loop rest (string @ s))"

definition Path_toString :: "Path \<Rightarrow> error + string" where
  "Path_toString path = Path_toString_loop (commands path) ''''"

section \<open>The array of normalized curves\<close>

text \<open>The two settings at the head of the script that choose what it computes.\<close>

record Config =
  clampInfiniteValues :: bool
  outputAsBezierCurveArray :: bool

text \<open>The function \<open>normalize\<close> local to \<open>getNormalizedCurve\<close>.\<close>

definition normalize :: "Config \<Rightarrow> jsnum \<Rightarrow> jsnum \<Rightarrow> jsnum \<Rightarrow> jsnum" where
  "normalize config val min' max' =
     (let delta = js_sub max' min';
          normalized = js_div (js_sub val min') delta
      in if clampInfiniteValues config
         then let normalized' = (if js_eq normalized NInf then Fin (- 10) else normalized)
              in if js_eq normalized' PInf then Fin 10 else normalized'
         else normalized)"

definition getNormalizedCurve ::
  "Config \<Rightarrow> TweenData \<Rightarrow> Point \<Rightarrow> Point \<Rightarrow> error + string list" where
  "getNormalizedCurve config tweenData p0 p1 =
     bind (toFixed 2 (normalize config (x p0) (startFrame tweenData) (endFrame tweenData))) (\<lambda>x1.
     bind (toFixed 2 (normalize config (y p0) (startValue tweenData) (endValue tweenData))) (\<lambda>y1.
     let y1' = (if isNaN y1 then x1 else y1) in
     bind (toFixed 2 (normalize config (x p1) (startFrame tweenData) (endFrame tweenData))) (\<lambda>x2.
     bind (toFixed 2 (normalize config (y p1) (startValue tweenData) (endValue tweenData))) (\<lambda>y2.
     let y2' = (if isNaN y2 then x2 else y2) in
     Inr [x1, y1', x2, y2']))))"

definition getBezierVals ::
  "Config \<Rightarrow> jsnum \<Rightarrow> Property \<Rightarrow> nat \<Rightarrow> nat \<Rightarrow> error + string list" where
  "getBezierVals config framerate prop startIndex endIndex =
     (let tweenData = calcTweenData framerate prop startIndex endIndex
      in bind (calcOutgoingControlPoint framerate tweenData prop startIndex) (\<lambda>outgoingPoint.
         bind (calcIncomingControlPoint framerate tweenData prop startIndex) (\<lambda>incomingPoint.
         getNormalizedCurve config tweenData outgoingPoint incomingPoint)))"

text \<open>\<open>Array.prototype.join\<close> on an array of strings.\<close>

fun join :: "string \<Rightarrow> string list \<Rightarrow> string" where
  "join separator [] = ''''"
| "join separator [s] = s"
| "join separator (s # t # rest) = s @ separator @ join separator (t # rest)"



section \<open>The main logic of the script\<close>


text \<open>The warning that \<open>getCommand\<close> raises for an unsupported pair of ease types.\<close>

definition unsupportedAlert :: event where
  "unsupportedAlert =
     Alert ''This keyframe pair uses an unsupported pair of ease types, results may be inaccurate.''"




section \<open>The text of a coordinate, as a specification\<close>

text \<open>
  What the serialisation is meant to print for a coordinate, against which the
  functions above are compared: the number rounded to four decimal places, half away
  from zero, in the shortest decimal notation.
\<close>

definition roundTo4 :: "real \<Rightarrow> real" where
  "roundTo4 r = sgn r * real_of_int \<lfloor>\<bar>r\<bar> * 10 ^ 4 + 1 / 2\<rfloor> / 10 ^ 4"

definition coordinateText :: "jsnum \<Rightarrow> string" where
  "coordinateText num =
     (case num of
        NaN \<Rightarrow> ''NaN''
      | PInf \<Rightarrow> ''Infinity''
      | NInf \<Rightarrow> ''-Infinity''
      | Fin r \<Rightarrow> decimalDigits (roundTo4 r))"

text \<open>
  A short decimal: an optional minus sign, at least one digit and then either nothing or
  a point followed by one to four digits, the last of which is not a zero.
\<close>

definition isShortDecimal :: "string \<Rightarrow> bool" where
  "isShortDecimal text =
     (let unsigned = (if take 1 text = ''-'' then drop 1 text else text);
          integerDigits = takeWhile isDigit unsigned;
          rest = dropWhile isDigit unsigned
      in integerDigits \<noteq> [] \<and>
         (rest = [] \<or>
          (take 1 rest = ''.'' \<and> drop 1 rest \<noteq> [] \<and> length (drop 1 rest) \<le> 4 \<and>
           list_all isDigit (drop 1 rest) \<and> last rest \<noteq> CHR ''0'')))"

text \<open>
  The numbers whose text is given: the finite ones that are still below \<open>2^39\<close>
  (549755813888) after the rounding, and the three special values.
\<close>

definition inRange :: "jsnum \<Rightarrow> bool" where
  "inRange num = (case num of Fin r \<Rightarrow> \<bar>roundTo4 r\<bar> < 2 ^ 39 | _ \<Rightarrow> True)"

text \<open>The text of a point: its two coordinates with a comma between them.\<close>

definition pointText :: "Point \<Rightarrow> string" where
  "pointText p = coordinateText (x p) @ '','' @ coordinateText (y p)"

text \<open>The text of a command: its letter, then its points with commas between them.\<close>

definition commandText :: "PathCommand \<Rightarrow> string" where
  "commandText c = command c @ join '','' (map pointText (points c))"

section \<open>Points as objects\<close>

text \<open>
  In the script a Point is an object: a command holds references to its points, and
  \<open>invertYAxis\<close> writes to the objects it reaches through them. Here the store is
  the list of the Point objects made so far and a reference is a position in it.
\<close>

type_synonym ref = nat

type_synonym store = "Point list"

record PathCommandObj =
  obj_command :: string
  obj_points :: "ref list"

text \<open>\<open>new Point(x, y)\<close>: a fresh object at the end of the store.\<close>

definition store_new_Point :: "jsnum \<Rightarrow> jsnum \<Rightarrow> store \<Rightarrow> ref \<times> store" where
  "store_new_Point px py s = (length s, s @ [\<lparr>x = px, y = py\<rparr>])"

text \<open>The inner loop of \<open>invertYAxis\<close>: \<open>point.y *= -1\<close> on each point of a command.\<close>

fun store_invertPoints :: "ref list \<Rightarrow> store \<Rightarrow> store" where
  "store_invertPoints [] s = s"
| "store_invertPoints (r # rs) s =
     store_invertPoints rs (s[r := (s ! r)\<lparr>y := js_mul (y (s ! r)) (Fin (- 1))\<rparr>])"

text \<open>The outer loop of \<open>invertYAxis\<close>, over the commands of the path.\<close>

fun store_invertYAxis :: "PathCommandObj list \<Rightarrow> store \<Rightarrow> store" where
  "store_invertYAxis [] s = s"
| "store_invertYAxis (c # cs) s = store_invertYAxis cs (store_invertPoints (obj_points c) s)"

text \<open>The values a path of objects holds in a store.\<close>

definition readCommand :: "store \<Rightarrow> PathCommandObj \<Rightarrow> PathCommand" where
  "readCommand s c = \<lparr>command = obj_command c, points = map (\<lambda>r. s ! r) (obj_points c)\<rparr>"

definition readPath :: "store \<Rightarrow> PathCommandObj list \<Rightarrow> Path" where
  "readPath s cs = \<lparr>commands = map (readCommand s) cs\<rparr>"

text \<open>All the references of a path, in the order \<open>invertYAxis\<close> visits them.\<close>

definition pathRefs :: "PathCommandObj list \<Rightarrow> ref list" where
  "pathRefs cs = concat (map obj_points cs)"

subsection \<open>Building the path in the store\<close>

text \<open>
  The functions that make Points, with the store passed through them: each
  \<open>new Point\<close> of the source is one \<open>store_new_Point\<close>. The numbers are those of
  the functions on values above.
\<close>

fun store_coordinatePoints :: "jsnum list \<Rightarrow> store \<Rightarrow> ref list \<times> store" where
  "store_coordinatePoints (a # b # cs) s =
     (let (r, s') = store_new_Point a b s;
          (rs, s'') = store_coordinatePoints cs s'
      in (r # rs, s''))"
| "store_coordinatePoints _ s = ([], s)"

definition store_new_PathCommand ::
  "string \<Rightarrow> jsnum list \<Rightarrow> store \<Rightarrow> error + PathCommandObj \<times> store" where
  "store_new_PathCommand cmd coordinates s =
     (if length coordinates mod 2 = 0
      then let (rs, s') = store_coordinatePoints coordinates s
           in Inr (\<lparr>obj_command = cmd, obj_points = rs\<rparr>, s')
      else Inl (Error ''Must provide an even number of coordinates when instantiating a PathCommand.''))"

text \<open>
  \<open>getCommand\<close>: the control points come from \<open>calcOutgoingControlPoint\<close> and
  \<open>calcIncomingControlPoint\<close>, each of which ends in a \<open>new Point\<close>, and the end
  anchor is the third new Point.
\<close>

definition store_getCommand ::
  "jsnum \<Rightarrow> Property \<Rightarrow> nat \<Rightarrow> store \<Rightarrow> event list \<times> (error + PathCommandObj \<times> store)" where
  "store_getCommand framerate property keyIndex s =
     (let tweenData = calcTweenData framerate property keyIndex (keyIndex + 1);
          easeType = calcEaseType property keyIndex (keyIndex + 1)
      in if easeType = ''linear-linear''
         then ([], store_new_PathCommand ''L'' [endFrame tweenData, endValue tweenData] s)
         else
           (if easeType = ''unsupported''
            then [Alert ''This keyframe pair uses an unsupported pair of ease types, results may be inaccurate.'']
            else [],
            bind (store_new_PathCommand ''C'' [] s) (\<lambda>(command', s1).
            bind (calcOutgoingControlPoint framerate tweenData property keyIndex) (\<lambda>outgoing.
            let (r1, s2) = store_new_Point (x outgoing) (y outgoing) s1 in
            bind (calcIncomingControlPoint framerate tweenData property keyIndex) (\<lambda>incoming.
            let (r2, s3) = store_new_Point (x incoming) (y incoming) s2;
                (r3, s4) = store_new_Point (endFrame tweenData) (endValue tweenData) s3
            in Inr (command'\<lparr>obj_points := obj_points command' @ [r1, r2, r3]\<rparr>, s4))))))"

fun store_getPath_loop ::
  "jsnum \<Rightarrow> Property \<Rightarrow> nat list \<Rightarrow> PathCommandObj list \<Rightarrow> store \<Rightarrow>
   event list \<times> (error + PathCommandObj list \<times> store)" where
  "store_getPath_loop framerate property [] path s = ([], Inr (path, s))"
| "store_getPath_loop framerate property (i # is) path s =
     bind_io (store_getCommand framerate property i s) (\<lambda>(command', s').
       store_getPath_loop framerate property is (path @ [command']) s')"

text \<open>The path and the store when the loop of \<open>getPath\<close> is left.\<close>

definition store_getPath_built ::
  "jsnum \<Rightarrow> Property \<Rightarrow> store \<Rightarrow> event list \<times> (error + PathCommandObj list \<times> store)" where
  "store_getPath_built framerate property s =
     (let curveStartFrame = js_mul (keyTime property 1) framerate;
          curveStartValue = firstValue (keyValue property 1)
      in bind_io ([], store_new_PathCommand ''M'' [curveStartFrame, curveStartValue] s)
           (\<lambda>(moveCommand, s').
              store_getPath_loop framerate property [1 ..< numKeys property] [moveCommand] s'))"

text \<open>\<open>getEndPoint\<close> returns the last reference of the last command.\<close>

definition store_getEndPoint :: "PathCommandObj list \<Rightarrow> error + ref option" where
  "store_getEndPoint path =
     (if path = [] then Inl TypeError
      else let lastCommand = last path in
        if obj_points lastCommand = [] then Inr None
        else Inr (Some (last (obj_points lastCommand))))"

definition store_getPath ::
  "jsnum \<Rightarrow> Property \<Rightarrow> store \<Rightarrow>
   event list \<times> (error + (PathCommandObj list \<times> store) option)" where
  "store_getPath framerate property s =
     (if numKeys property \<le> 1 then ([], Inr None)
      else
        let curveStartValue = firstValue (keyValue property 1)
        in bind_io (store_getPath_built framerate property s) (\<lambda>(path, s').
             ([], bind (store_getEndPoint path) (\<lambda>endPoint.
                    case endPoint of
                      None \<Rightarrow> Inl TypeError
                    | Some endPoint' \<Rightarrow>
                        Inr (Some (path, if js_gt (y (s' ! endPoint')) curveStartValue
                                         then store_invertYAxis path s' else s'))))))"

text \<open>
  A command on values placed in a store: its points become new objects at the end of
  the store, in their order. This is how the functions on values and the functions on
  the store are compared.
\<close>

definition store_place :: "PathCommand \<Rightarrow> store \<Rightarrow> PathCommandObj \<times> store" where
  "store_place c s =
     (\<lparr>obj_command = command c, obj_points = [length s ..< length s + length (points c)]\<rparr>,
      s @ points c)"

section \<open>Example inputs\<close>

text \<open>
  A property with two keys, at 0 s and 0.8 s (frames 0 and 24 at 30 frames per second),
  with values 0 and -100, Bezier interpolation on both sides, an outgoing ease of
  speed 10 and an incoming ease of speed -10, both of influence 33.33.
\<close>

definition exampleProperty :: Property where
  "exampleProperty =
     \<lparr>numKeys = 2,
      keyTime = (\<lambda>i. if i = 1 then Fin 0 else Fin (8 / 10)),
      keyValue = (\<lambda>i. if i = 1 then Scalar (Fin 0) else Scalar (Fin (- 100))),
      keyOutInterpolationType = (\<lambda>i. BEZIER),
      keyInInterpolationType = (\<lambda>i. BEZIER),
      keyOutTemporalEase = (\<lambda>i. [\<lparr>speed = Fin 10, influence = Fin (3333 / 100)\<rparr>]),
      keyInTemporalEase = (\<lambda>i. [\<lparr>speed = Fin (- 10), influence = Fin (3333 / 100)\<rparr>])\<rparr>"

text \<open>The same keys with linear interpolation and a value that rises from 0 to 100.\<close>

definition linearProperty :: Property where
  "linearProperty =
     \<lparr>numKeys = 2,
      keyTime = (\<lambda>i. if i = 1 then Fin 0 else Fin (8 / 10)),
      keyValue = (\<lambda>i. if i = 1 then Scalar (Fin 0) else Scalar (Fin 100)),
      keyOutInterpolationType = (\<lambda>i. LINEAR),
      keyInInterpolationType = (\<lambda>i. LINEAR),
      keyOutTemporalEase = (\<lambda>i. [\<lparr>speed = Fin 125, influence = Fin (50 / 3)\<rparr>]),
      keyInTemporalEase = (\<lambda>i. [\<lparr>speed = Fin 125, influence = Fin (50 / 3)\<rparr>])\<rparr>"

text \<open>The tween data of the first example, as \<open>calcTweenData\<close> computes them at 30 frames per second.\<close>

definition exampleTweenData :: TweenData where
  "exampleTweenData =
     \<lparr>startTime = Fin 0, endTime = Fin (8 / 10), durationTime = Fin (8 / 10),
      startFrame = Fin 0, endFrame = Fin 24, durationFrames = Fin 24,
      startValue = Fin 0, endValue = Fin (- 100)\<rparr>"

definition defaultConfig :: Config where
  "defaultConfig = \<lparr>clampInfiniteValues = True, outputAsBezierCurveArray = False\<rparr>"

text \<open>
  A property that leaves 0 at speed 10 and is back at 0 at the second key, and the
  settings of the array mode.
\<close>

definition flatProperty :: Property where
  "flatProperty =
     \<lparr>numKeys = 2,
      keyTime = (\<lambda>i. if i = 1 then Fin 0 else Fin (8 / 10)),
      keyValue = (\<lambda>i. Scalar (Fin 0)),
      keyOutInterpolationType = (\<lambda>i. BEZIER),
      keyInInterpolationType = (\<lambda>i. BEZIER),
      keyOutTemporalEase = (\<lambda>i. [\<lparr>speed = Fin 10, influence = Fin (3333 / 100)\<rparr>]),
      keyInTemporalEase = (\<lambda>i. [\<lparr>speed = Fin (- 10), influence = Fin (3333 / 100)\<rparr>])\<rparr>"

definition arrayConfig :: Config where
  "arrayConfig = \<lparr>clampInfiniteValues = True, outputAsBezierCurveArray = True\<rparr>"

section \<open>Control points\<close>

lemma js_add_commute: "js_add a b = js_add b a"
  by (cases a; cases b) simp_all

lemmas example_defs =
  exampleProperty_def linearProperty_def exampleTweenData_def defaultConfig_def
  flatProperty_def arrayConfig_def

text \<open>
  Claim C1. For every keyframe pair, the outgoing control point that
  \<open>calcOutgoingControlPoint\<close> computes is \<open>(startFrame + x, startValue + m * x)\<close>, where
  \<open>m = outgoingSpeed / frameRate\<close> and \<open>x = durationFrames * (outgoingInfluence / 100)\<close>,
  the speed and the influence being those of the first element of the outgoing temporal
  ease of the start key.
\<close>

theorem calcOutgoingControlPoint_formula:
  assumes "keyOutTemporalEase property keyIndex = firstEase # others"
  shows "calcOutgoingControlPoint framerate tweenData property keyIndex =
     Inr \<lparr>x = js_add (startFrame tweenData)
                (js_mul (durationFrames tweenData) (js_div (influence firstEase) (Fin 100))),
          y = js_add (startValue tweenData)
                (js_mul (js_div (speed firstEase) framerate)
                   (js_mul (durationFrames tweenData)
                      (js_div (influence firstEase) (Fin 100))))\<rparr>"
  using assms by (simp add: calcOutgoingControlPoint_def Let_def js_add_commute)

theorem calcOutgoingControlPoint_formula_witness:
  "keyOutTemporalEase exampleProperty 1 = \<lparr>speed = Fin 10, influence = Fin (3333 / 100)\<rparr> # [] \<and>
   calcOutgoingControlPoint (Fin 30) (calcTweenData (Fin 30) exampleProperty 1 2) exampleProperty 1 =
     Inr \<lparr>x = Fin (79992 / 10000), y = Fin (26664 / 10000)\<rparr>"
  using calcOutgoingControlPoint_formula [where property = exampleProperty and keyIndex = 1
      and firstEase = "\<lparr>speed = Fin 10, influence = Fin (3333 / 100)\<rparr>" and others = "[]"
      and framerate = "Fin 30" and tweenData = "calcTweenData (Fin 30) exampleProperty 1 2"]
  by (simp add: example_defs calcTweenData_def js_sub_def Let_def)

lemma js_div_neg: "js_div (js_neg a) b = js_neg (js_div a b)"
  by (cases a; cases b) (auto simp: js_inf_def)

lemma js_mul_neg: "js_mul (js_neg a) b = js_neg (js_mul a b)"
  by (cases a; cases b) (auto simp: js_inf_def)

lemma js_add_neg_same:
  assumes "js_add (js_neg t) b = js_add t b"
  shows "js_add (js_neg t) b = b \<or> js_add (js_neg t) b = NaN"
  using assms by (cases t; cases b) auto

text \<open>
  Claim C3, as amended. The incoming control points of the two scripts, with the slopes
  \<open>-incomingSpeed / framerate\<close> and \<open>Math.abs(incomingSpeed) / framerate\<close>, are the
  same point whenever \<open>incomingSpeed <= 0\<close>. Whenever \<open>incomingSpeed > 0\<close> they have
  the same \<open>x\<close>, and their \<open>y\<close> are \<open>-t + endValue\<close> in the first script and
  \<open>t + endValue\<close> in the second, for the one offset
  \<open>t = (incomingSpeed / framerate) * (durationFrames * (incomingInfluence / 100))\<close>.
  The two \<open>y\<close> are therefore the same Number only when that Number is \<open>endValue\<close>
  itself, the offset having left it unchanged, or is \<open>NaN\<close>.
\<close>

theorem calcIncomingControlPoint_variants:
  assumes "keyInTemporalEase property (keyIndex + 1) = firstEase # others"
  shows "(js_gt (Fin 0) (speed firstEase) \<or> js_eq (speed firstEase) (Fin 0) \<longrightarrow>
            calcIncomingControlPoint framerate tweenData property keyIndex =
            calcIncomingControlPoint2 framerate tweenData property keyIndex) \<and>
         (js_gt (speed firstEase) (Fin 0) \<longrightarrow>
            (\<exists>p1 p2. calcIncomingControlPoint framerate tweenData property keyIndex = Inr p1 \<and>
                     calcIncomingControlPoint2 framerate tweenData property keyIndex = Inr p2 \<and>
                     x p1 = x p2 \<and>
                     y p1 = js_add (js_neg (js_mul (js_div (speed firstEase) framerate)
                                     (js_mul (durationFrames tweenData)
                                        (js_div (influence firstEase) (Fin 100)))))
                              (endValue tweenData) \<and>
                     y p2 = js_add (js_mul (js_div (speed firstEase) framerate)
                                     (js_mul (durationFrames tweenData)
                                        (js_div (influence firstEase) (Fin 100))))
                              (endValue tweenData) \<and>
                     (y p1 = y p2 \<longrightarrow> y p1 = endValue tweenData \<or> y p1 = NaN)))"
proof (intro conjI impI)
  assume "js_gt (Fin 0) (speed firstEase) \<or> js_eq (speed firstEase) (Fin 0)"
  then have "js_neg (speed firstEase) = js_abs (speed firstEase)"
    by (cases "speed firstEase") (auto simp: js_eq_def)
  then show "calcIncomingControlPoint framerate tweenData property keyIndex =
             calcIncomingControlPoint2 framerate tweenData property keyIndex"
    using assms by (simp add: calcIncomingControlPoint_def calcIncomingControlPoint2_def Let_def)
next
  let ?t = "js_mul (js_div (speed firstEase) framerate)
              (js_mul (durationFrames tweenData) (js_div (influence firstEase) (Fin 100)))"
  let ?p1 = "\<lparr>x = js_sub (endFrame tweenData)
                     (js_mul (durationFrames tweenData) (js_div (influence firstEase) (Fin 100))),
               y = js_add (js_neg ?t) (endValue tweenData)\<rparr>"
  let ?p2 = "\<lparr>x = js_sub (endFrame tweenData)
                     (js_mul (durationFrames tweenData) (js_div (influence firstEase) (Fin 100))),
               y = js_add ?t (endValue tweenData)\<rparr>"
  assume "js_gt (speed firstEase) (Fin 0)"
  then have pos: "js_abs (speed firstEase) = speed firstEase"
    by (cases "speed firstEase") auto
  have 1: "calcIncomingControlPoint framerate tweenData property keyIndex = Inr ?p1"
    using assms by (simp add: calcIncomingControlPoint_def Let_def js_div_neg js_mul_neg)
  have 2: "calcIncomingControlPoint2 framerate tweenData property keyIndex = Inr ?p2"
    using assms by (simp add: calcIncomingControlPoint2_def Let_def pos)
  have 3: "y ?p1 = y ?p2 \<longrightarrow> y ?p1 = endValue tweenData \<or> y ?p1 = NaN"
    using js_add_neg_same [of ?t "endValue tweenData"] by simp
  show "\<exists>p1 p2. calcIncomingControlPoint framerate tweenData property keyIndex = Inr p1 \<and>
                     calcIncomingControlPoint2 framerate tweenData property keyIndex = Inr p2 \<and>
                     x p1 = x p2 \<and>
                     y p1 = js_add (js_neg ?t) (endValue tweenData) \<and>
                     y p2 = js_add ?t (endValue tweenData) \<and>
                     (y p1 = y p2 \<longrightarrow> y p1 = endValue tweenData \<or> y p1 = NaN)"
    using 1 2 3 by (intro exI [of _ ?p1] exI [of _ ?p2]) simp
qed

theorem calcIncomingControlPoint_variants_witness:
  "(js_gt (Fin 0) (Fin (- 10)) \<and>
    calcIncomingControlPoint (Fin 30) exampleTweenData exampleProperty 1 =
    calcIncomingControlPoint2 (Fin 30) exampleTweenData exampleProperty 1) \<and>
   (js_gt (Fin 125) (Fin 0) \<and>
    calcIncomingControlPoint (Fin 30) exampleTweenData linearProperty 1 =
      Inr \<lparr>x = Fin 20, y = Fin (- (350 / 3))\<rparr> \<and>
    calcIncomingControlPoint2 (Fin 30) exampleTweenData linearProperty 1 =
      Inr \<lparr>x = Fin 20, y = Fin (- (250 / 3))\<rparr>)"
  using calcIncomingControlPoint_variants [where property = exampleProperty and keyIndex = 1
      and firstEase = "\<lparr>speed = Fin (- 10), influence = Fin (3333 / 100)\<rparr>"
      and others = "[]" and framerate = "Fin 30" and tweenData = exampleTweenData]
    calcIncomingControlPoint_variants [where property = linearProperty and keyIndex = 1
      and firstEase = "\<lparr>speed = Fin 125, influence = Fin (50 / 3)\<rparr>"
      and others = "[]" and framerate = "Fin 30" and tweenData = exampleTweenData]
  by (simp add: example_defs js_eq_def js_sub_def calcIncomingControlPoint_def
      calcIncomingControlPoint2_def Let_def)

text \<open>
  The claim as it was stated, that the two \<open>y\<close> differ whenever \<open>incomingSpeed > 0\<close>
  and the horizontal offset is not zero, fails where the offset leaves \<open>endValue\<close>
  unchanged. With exact arithmetic that takes an end value that is not finite: for
  speed 125, influence 50/3, 24 frames at 30 frames per second and the end value
  \<open>Infinity\<close>, the horizontal offset is 4 and both scripts return \<open>(20, Infinity)\<close>.
\<close>

theorem calcIncomingControlPoint_variants_counterexample:
  "js_gt (Fin 125) (Fin 0) \<and>
   js_mul (durationFrames (exampleTweenData\<lparr>endValue := PInf\<rparr>))
     (js_div (Fin (50 / 3)) (Fin 100)) = Fin 4 \<and>
   \<not> js_eq (Fin 4) (Fin 0) \<and>
   calcIncomingControlPoint (Fin 30) (exampleTweenData\<lparr>endValue := PInf\<rparr>) linearProperty 1 =
     Inr \<lparr>x = Fin 20, y = PInf\<rparr> \<and>
   calcIncomingControlPoint2 (Fin 30) (exampleTweenData\<lparr>endValue := PInf\<rparr>) linearProperty 1 =
     Inr \<lparr>x = Fin 20, y = PInf\<rparr>"
  by (simp add: example_defs calcIncomingControlPoint_def calcIncomingControlPoint2_def
      js_eq_def js_sub_def Let_def)

section \<open>Path commands\<close>

lemma coordinatePoints_length: "length (coordinatePoints cs) = length cs div 2"
  by (induction cs rule: coordinatePoints.induct) simp_all

lemma coordinatePoints_nth:
  "j < length cs div 2 \<Longrightarrow>
   coordinatePoints cs ! j = \<lparr>x = cs ! (2 * j), y = cs ! (2 * j + 1)\<rparr>"
proof (induction cs arbitrary: j rule: coordinatePoints.induct)
  case (1 a b cs)
  then show ?case by (cases j) simp_all
qed simp_all

text \<open>
  Claim C9. Constructing a PathCommand with an odd number of coordinates throws an
  Error at once, and the exception passes through whatever the caller goes on to do with
  the command. With \<open>2 * k\<close> coordinates the construction succeeds and the command
  holds exactly \<open>k\<close> points, the pairs of the coordinates in the order of the arguments.
\<close>

theorem new_PathCommand_parity:
  "(odd (length coordinates) \<longrightarrow>
      (\<exists>msg. new_PathCommand cmd coordinates = Inl (Error msg) \<and>
         (\<forall>f :: PathCommand \<Rightarrow> error + 'b.
            bind (new_PathCommand cmd coordinates) f = Inl (Error msg)))) \<and>
   (length coordinates = 2 * k \<longrightarrow>
      (\<exists>c. new_PathCommand cmd coordinates = Inr c \<and> command c = cmd \<and>
         length (points c) = k \<and>
         (\<forall>j < k. points c ! j =
            \<lparr>x = coordinates ! (2 * j), y = coordinates ! (2 * j + 1)\<rparr>)))"
  by (auto simp: new_PathCommand_def bind_def coordinatePoints_length coordinatePoints_nth
      odd_iff_mod_2_eq_one)

theorem new_PathCommand_parity_witness:
  "(odd (length [Fin 1, Fin 2, Fin 3]) \<and>
    (\<exists>msg. new_PathCommand ''C'' [Fin 1, Fin 2, Fin 3] = Inl (Error msg))) \<and>
   (length [Fin 1, Fin 2, Fin 3, Fin 4] = 2 * 2 \<and>
    (\<exists>c. new_PathCommand ''C'' [Fin 1, Fin 2, Fin 3, Fin 4] = Inr c \<and> command c = ''C'' \<and>
       length (points c) = 2 \<and> points c ! 0 = \<lparr>x = Fin 1, y = Fin 2\<rparr> \<and>
       points c ! 1 = \<lparr>x = Fin 3, y = Fin 4\<rparr>))"
proof -
  have odd3: "odd (length [Fin 1, Fin 2, Fin 3])" by simp
  have len4: "length [Fin 1, Fin 2, Fin 3, Fin 4] = 2 * 2" by simp
  from new_PathCommand_parity [where coordinates = "[Fin 1, Fin 2, Fin 3]" and cmd = "''C''"
      and k = 0] odd3
  have thrown: "\<exists>msg. new_PathCommand ''C'' [Fin 1, Fin 2, Fin 3] = Inl (Error msg)"
    by blast
  from new_PathCommand_parity [where coordinates = "[Fin 1, Fin 2, Fin 3, Fin 4]"
      and cmd = "''C''" and k = 2] len4
  obtain c where c: "new_PathCommand ''C'' [Fin 1, Fin 2, Fin 3, Fin 4] = Inr c"
    "command c = ''C''" "length (points c) = 2"
    "\<forall>j < 2. points c ! j =
       \<lparr>x = [Fin 1, Fin 2, Fin 3, Fin 4] ! (2 * j), y = [Fin 1, Fin 2, Fin 3, Fin 4] ! (2 * j + 1)\<rparr>"
    by blast
  from c(4) have "points c ! 0 = \<lparr>x = Fin 1, y = Fin 2\<rparr>" "points c ! 1 = \<lparr>x = Fin 3, y = Fin 4\<rparr>"
    by simp_all
  with odd3 len4 thrown c(1-3) show ?thesis by blast
qed

text \<open>
  Claim C4. For every keyframe pair: when the classification is \<open>linear-linear\<close>, the
  command \<open>getCommand\<close> returns is an \<open>L\<close> command with the single point
  \<open>(endFrame, endValue)\<close>; for every other classification, \<open>unsupported\<close> included, it
  is a \<open>C\<close> command with exactly three points, the third being
  \<open>(endFrame, endValue)\<close>. The host supplies at least one ease for each side of the
  pair.
\<close>

theorem getCommand_shape:
  "(calcEaseType property keyIndex (keyIndex + 1) = ''linear-linear'' \<longrightarrow>
      snd (getCommand framerate property keyIndex) =
        Inr \<lparr>command = ''L'',
             points = [\<lparr>x = endFrame (calcTweenData framerate property keyIndex (keyIndex + 1)),
                        y = endValue (calcTweenData framerate property keyIndex (keyIndex + 1))\<rparr>]\<rparr>) \<and>
   (calcEaseType property keyIndex (keyIndex + 1) \<noteq> ''linear-linear'' \<and>
    keyOutTemporalEase property keyIndex \<noteq> [] \<and>
    keyInTemporalEase property (keyIndex + 1) \<noteq> [] \<longrightarrow>
      (\<exists>outgoing incoming. snd (getCommand framerate property keyIndex) =
        Inr \<lparr>command = ''C'',
             points = [outgoing, incoming,
                       \<lparr>x = endFrame (calcTweenData framerate property keyIndex (keyIndex + 1)),
                        y = endValue (calcTweenData framerate property keyIndex (keyIndex + 1))\<rparr>]\<rparr>))"
  by (auto simp: getCommand_def Let_def new_PathCommand_def bind_def
      calcOutgoingControlPoint_def calcIncomingControlPoint_def split: list.splits)

theorem getCommand_shape_witness:
  "(calcEaseType linearProperty 1 (1 + 1) = ''linear-linear'' \<and>
    snd (getCommand (Fin 30) linearProperty 1) =
      Inr \<lparr>command = ''L'', points = [\<lparr>x = Fin 24, y = Fin 100\<rparr>]\<rparr>) \<and>
   (calcEaseType exampleProperty 1 (1 + 1) = ''bezier-bezier'' \<and>
    keyOutTemporalEase exampleProperty 1 \<noteq> [] \<and> keyInTemporalEase exampleProperty (1 + 1) \<noteq> [] \<and>
    (\<exists>outgoing incoming. snd (getCommand (Fin 30) exampleProperty 1) =
      Inr \<lparr>command = ''C'', points = [outgoing, incoming, \<lparr>x = Fin 24, y = Fin (- 100)\<rparr>]\<rparr>))"
  using getCommand_shape [where property = linearProperty and keyIndex = 1 and framerate = "Fin 30"]
    getCommand_shape [where property = exampleProperty and keyIndex = 1 and framerate = "Fin 30"]
  by (simp add: example_defs calcEaseType_def calcTweenData_def Let_def js_sub_def)

section \<open>The Y axis of the path\<close>

lemma bind_io_Inr: "bind_io (evs, Inr a) f = (evs @ fst (f a), snd (f a))"
  by (simp add: bind_io_def split: prod.splits)

lemma bind_io_Inl: "bind_io (evs, Inl e) f = (evs, Inl e)"
  by (simp add: bind_io_def)







section \<open>Digits\<close>

lemma digitsOfNat_small: "n < 10 \<Longrightarrow> digitsOfNat n = [digitChar n]"
  by (simp add: digitsOfNat.simps)

lemma digitsOfNat_large:
  "\<not> n < 10 \<Longrightarrow> digitsOfNat n = digitsOfNat (n div 10) @ [digitChar (n mod 10)]"
  by (subst digitsOfNat.simps) simp

lemma replicate_numeral: "replicate (numeral k) a = a # replicate (pred_numeral k) a"
  by (simp add: numeral_eq_Suc)

lemmas text_eval =
  toFixed_def parseFloat_def cleanNumber_def numberToString_def decimalDigits_def
  Point_toString_def PathCommand_toString_def Path_toString_def
  digitsOfNat_small digitsOfNat_large digitChar_def isDigit_def natOfDigits_def digitValue_def
  replicate_numeral bind_def Let_def

lemma digitChar_isDigit: "d < 10 \<Longrightarrow> isDigit (digitChar d)"
proof -
  assume "d < 10"
  then have "d \<in> {0,1,2,3,4,5,6,7,8,9}" by auto
  then show ?thesis by (auto simp: isDigit_def digitChar_def)
qed

lemma digitValue_digitChar: "d < 10 \<Longrightarrow> digitValue (digitChar d) = d"
proof -
  assume "d < 10"
  then have "d \<in> {0,1,2,3,4,5,6,7,8,9}" by auto
  then show ?thesis by (auto simp: digitValue_def digitChar_def)
qed

lemma digitsOfNat_digits: "list_all isDigit (digitsOfNat n)"
proof (induction n rule: digitsOfNat.induct)
  case (1 n)
  show ?case
  proof (cases "n < 10")
    case True
    then show ?thesis by (subst digitsOfNat.simps) (simp add: digitChar_isDigit)
  next
    case False
    with 1 show ?thesis by (subst digitsOfNat.simps) (simp add: digitChar_isDigit)
  qed
qed

lemma digitsOfNat_nonempty: "digitsOfNat n \<noteq> []"
  by (subst digitsOfNat.simps) simp

lemma natOfDigits_snoc: "natOfDigits (ds @ [c]) = 10 * natOfDigits ds + digitValue c"
  by (simp add: natOfDigits_def)

lemma natOfDigits_digitsOfNat: "natOfDigits (digitsOfNat n) = n"
proof (induction n rule: digitsOfNat.induct)
  case (1 n)
  show ?case
  proof (cases "n < 10")
    case True
    then show ?thesis by (subst digitsOfNat.simps) (simp add: natOfDigits_def digitValue_digitChar)
  next
    case False
    with 1 show ?thesis
      by (subst digitsOfNat.simps) (simp add: natOfDigits_snoc digitValue_digitChar)
  qed
qed

lemma natOfDigits_append:
  "natOfDigits (as @ bs) = natOfDigits as * 10 ^ length bs + natOfDigits bs"
proof (induction bs rule: rev_induct)
  case Nil
  then show ?case by (simp add: natOfDigits_def)
next
  case (snoc c bs)
  have "natOfDigits (as @ bs @ [c]) = 10 * natOfDigits (as @ bs) + digitValue c"
    using natOfDigits_snoc [of "as @ bs" c] by simp
  with snoc show ?case by (simp add: natOfDigits_snoc algebra_simps)
qed

lemma natOfDigits_zeros: "natOfDigits (replicate k CHR ''0'') = 0"
proof (induction k)
  case 0
  then show ?case by (simp add: natOfDigits_def)
next
  case (Suc k)
  have "replicate (Suc k) CHR ''0'' = replicate k CHR ''0'' @ [CHR ''0'']"
    by (simp add: replicate_append_same)
  then have "natOfDigits (replicate (Suc k) CHR ''0'') =
      10 * natOfDigits (replicate k CHR ''0'') + digitValue CHR ''0''"
    by (simp only: natOfDigits_snoc)
  with Suc show ?case by (simp add: digitValue_def)
qed

lemma length_digitsOfNat: "n < 10 ^ k \<Longrightarrow> 0 < k \<Longrightarrow> length (digitsOfNat n) \<le> k"
proof (induction n arbitrary: k rule: digitsOfNat.induct)
  case (1 n)
  show ?case
  proof (cases "n < 10")
    case True
    with 1(3) show ?thesis by (subst digitsOfNat.simps) simp
  next
    case False
    with 1(2) have k2: "1 < k" by (cases k; cases "k - 1") auto
    then obtain j where j: "k = Suc j" "0 < j" by (cases k) auto
    from 1(2) j have "n div 10 < 10 ^ j" by (simp add: less_mult_imp_div_less mult.commute)
    from 1(1) [OF False this j(2)] False j show ?thesis
      by (subst digitsOfNat.simps) simp
  qed
qed

lemma isDigit_hd_facts:
  assumes "as \<noteq> []" "list_all isDigit as"
  shows "take 1 (as @ bs) \<noteq> ''-''" "take 1 (as @ bs) \<noteq> ''+''" "take 8 (as @ bs) \<noteq> ''Infinity''"
proof -
  from assms obtain c cs where as: "as = c # cs" and c: "isDigit c" by (cases as) auto
  from c have "c \<noteq> CHR ''-''" "c \<noteq> CHR ''+''" "c \<noteq> CHR ''I''" by (auto simp: isDigit_def)
  then show "take 1 (as @ bs) \<noteq> ''-''" "take 1 (as @ bs) \<noteq> ''+''" "take 8 (as @ bs) \<noteq> ''Infinity''"
    by (simp_all add: as)
qed

lemma digits_then_point:
  assumes "list_all isDigit as" "list_all isDigit bs"
  shows "takeWhile isDigit (as @ ''.'' @ bs) = as"
    and "dropWhile isDigit (as @ ''.'' @ bs) = ''.'' @ bs"
    and "takeWhile isDigit bs = bs"
proof -
  have p: "\<not> isDigit CHR ''.''" by (simp add: isDigit_def)
  from assms(1) have a: "\<And>c. c \<in> set as \<Longrightarrow> isDigit c" by (simp add: list_all_iff)
  show "takeWhile isDigit (as @ ''.'' @ bs) = as"
    using a p by (simp add: takeWhile_append2)
  show "dropWhile isDigit (as @ ''.'' @ bs) = ''.'' @ bs"
    using a p by (simp add: dropWhile_append2)
  show "takeWhile isDigit bs = bs"
    using assms(2) by (simp add: list_all_iff)
qed

lemma parseFloat_decimal:
  assumes "as \<noteq> []" "list_all isDigit as" "list_all isDigit bs"
  shows "parseFloat (as @ ''.'' @ bs) =
           Fin (real (natOfDigits as) + real (natOfDigits bs) / 10 ^ length bs)"
    and "parseFloat (''-'' @ as @ ''.'' @ bs) =
           Fin (- (real (natOfDigits as) + real (natOfDigits bs) / 10 ^ length bs))"
proof -
  note h = isDigit_hd_facts [OF assms(1,2), of "''.'' @ bs"]
  note d = digits_then_point [OF assms(2,3)]
  have h': "(take 1 (as @ ''.'' @ bs) = ''-'') = False" "(take 1 (as @ ''.'' @ bs) = ''+'') = False"
    "(take 8 (as @ ''.'' @ bs) = ''Infinity'') = False"
    using h by simp_all
  have p: "take 1 (''.'' @ bs) = ''.''" "drop 1 (''.'' @ bs) = bs" by simp_all
  have m: "take 1 (''-'' @ as @ ''.'' @ bs) = ''-''" "drop 1 (''-'' @ as @ ''.'' @ bs) = as @ ''.'' @ bs"
    by simp_all
  show "parseFloat (as @ ''.'' @ bs) =
           Fin (real (natOfDigits as) + real (natOfDigits bs) / 10 ^ length bs)"
    and "parseFloat (''-'' @ as @ ''.'' @ bs) =
           Fin (- (real (natOfDigits as) + real (natOfDigits bs) / 10 ^ length bs))"
    by (simp_all only: parseFloat_def Let_def h' d p m simp_thms if_True if_False assms(1))
qed

lemma toFixed_digits:
  "list_all isDigit (if length (digitsOfNat n) \<le> f
       then replicate (f + 1 - length (digitsOfNat n)) CHR ''0'' @ digitsOfNat n else digitsOfNat n)"
  "f < length (if length (digitsOfNat n) \<le> f
       then replicate (f + 1 - length (digitsOfNat n)) CHR ''0'' @ digitsOfNat n else digitsOfNat n)"
  "natOfDigits (if length (digitsOfNat n) \<le> f
       then replicate (f + 1 - length (digitsOfNat n)) CHR ''0'' @ digitsOfNat n else digitsOfNat n) = n"
  using digitsOfNat_digits [of n]
  by (simp_all add: isDigit_def list_all_iff natOfDigits_append natOfDigits_zeros
      natOfDigits_digitsOfNat)

lemma toFixed_Fin:
  assumes "\<bar>r\<bar> < 10 ^ 21" "f \<noteq> 0"
  shows "\<exists>as bs. toFixed f (Fin r) = Inr ((if r < 0 then ''-'' else '''') @ as @ ''.'' @ bs) \<and>
           as \<noteq> [] \<and> list_all isDigit as \<and> list_all isDigit bs \<and> length bs = f \<and>
           natOfDigits as * 10 ^ f + natOfDigits bs = nat \<lfloor>\<bar>r\<bar> * 10 ^ f + 1 / 2\<rfloor>"
proof -
  define n where "n = nat \<lfloor>\<bar>r\<bar> * 10 ^ f + 1 / 2\<rfloor>"
  define z where "z = (if length (digitsOfNat n) \<le> f
       then replicate (f + 1 - length (digitsOfNat n)) CHR ''0'' @ digitsOfNat n else digitsOfNat n)"
  note zf = toFixed_digits [where n = n and f = f, folded z_def]
  let ?as = "take (length z - f) z" and ?bs = "drop (length z - f) z"
  have 1: "toFixed f (Fin r) = Inr ((if r < 0 then ''-'' else '''') @ ?as @ ''.'' @ ?bs)"
    using assms by (simp add: toFixed_def Let_def n_def z_def)
  have 2: "?as \<noteq> []" using zf(2) by auto
  have 3: "list_all isDigit ?as" "list_all isDigit ?bs"
    using zf(1) by (auto simp: list_all_iff dest: in_set_takeD in_set_dropD)
  have 4: "length ?bs = f" using zf(2) by simp
  have "natOfDigits (?as @ ?bs) = natOfDigits ?as * 10 ^ length ?bs + natOfDigits ?bs"
    by (rule natOfDigits_append)
  then have 5: "natOfDigits ?as * 10 ^ f + natOfDigits ?bs = n"
    using zf(3) 4 by simp
  from 1 2 3 4 5 show ?thesis unfolding n_def by blast
qed

lemma cleanNumber_Fin:
  "cleanNumber (Fin r) = (if \<bar>r\<bar> \<ge> 10 ^ 21 then Inl NotModelled else Inr (Fin (roundTo4 r)))"
proof (cases "\<bar>r\<bar> \<ge> 10 ^ 21")
  case True
  then show ?thesis by (simp add: cleanNumber_def toFixed_def bind_def Let_def)
next
  case False
  then have "\<bar>r\<bar> < 10 ^ 21" by simp
  from toFixed_Fin [OF this, of 4]
  obtain as bs where t: "toFixed 4 (Fin r) = Inr ((if r < 0 then ''-'' else '''') @ as @ ''.'' @ bs)"
    and d: "as \<noteq> []" "list_all isDigit as" "list_all isDigit bs" and l: "length bs = 4"
    and v: "natOfDigits as * 10 ^ 4 + natOfDigits bs = nat \<lfloor>\<bar>r\<bar> * 10 ^ 4 + 1 / 2\<rfloor>"
    by auto
  have nn: "0 \<le> \<lfloor>\<bar>r\<bar> * 10 ^ 4 + 1 / 2\<rfloor>" by simp
  have "real (natOfDigits as) + real (natOfDigits bs) / 10 ^ length bs =
        real (natOfDigits as * 10 ^ 4 + natOfDigits bs) / 10 ^ 4"
    by (simp add: l field_simps)
  also have "\<dots> = real_of_int \<lfloor>\<bar>r\<bar> * 10 ^ 4 + 1 / 2\<rfloor> / 10 ^ 4"
    using nn by (simp only: v) simp
  finally have mag: "real (natOfDigits as) + real (natOfDigits bs) / 10 ^ length bs =
        real_of_int \<lfloor>\<bar>r\<bar> * 10 ^ 4 + 1 / 2\<rfloor> / 10 ^ 4" .
  show ?thesis
  proof (cases "r < 0")
    case True
    with t have "cleanNumber (Fin r) = Inr (parseFloat (''-'' @ as @ ''.'' @ bs))"
      by (simp add: cleanNumber_def bind_def)
    also have "\<dots> = Inr (Fin (- (real_of_int \<lfloor>\<bar>r\<bar> * 10 ^ 4 + 1 / 2\<rfloor> / 10 ^ 4)))"
      by (simp only: parseFloat_decimal(2) [OF d] mag)
    finally show ?thesis using True False by (simp add: roundTo4_def)
  next
    case nonneg: False
    with t have "cleanNumber (Fin r) = Inr (parseFloat (as @ ''.'' @ bs))"
      by (simp add: cleanNumber_def bind_def)
    also have "\<dots> = Inr (Fin (real_of_int \<lfloor>\<bar>r\<bar> * 10 ^ 4 + 1 / 2\<rfloor> / 10 ^ 4))"
      by (simp only: parseFloat_decimal(1) [OF d] mag)
    finally show ?thesis using nonneg False
      by (cases "r = 0") (simp_all add: roundTo4_def)
  qed
qed

section \<open>The text of a path\<close>

lemma roundTo4_abs: "\<bar>roundTo4 r\<bar> * 10 ^ 4 = real_of_int \<lfloor>\<bar>r\<bar> * 10 ^ 4 + 1 / 2\<rfloor>"
proof -
  have "0 \<le> \<lfloor>\<bar>r\<bar> * 10 ^ 4 + 1 / 2\<rfloor>" by simp
  then have "\<bar>real_of_int \<lfloor>\<bar>r\<bar> * 10 ^ 4 + 1 / 2\<rfloor>\<bar> = real_of_int \<lfloor>\<bar>r\<bar> * 10 ^ 4 + 1 / 2\<rfloor>"
    by linarith
  moreover have "r = 0 \<Longrightarrow> \<lfloor>\<bar>r\<bar> * 10 ^ 4 + 1 / 2\<rfloor> = 0" by simp
  ultimately show ?thesis
    by (cases "r = 0") (simp_all add: roundTo4_def abs_mult)
qed

lemma roundTo4_large:
  assumes "\<bar>r\<bar> \<ge> 10 ^ 21"
  shows "\<bar>roundTo4 r\<bar> \<ge> 10 ^ 21"
proof -
  have "real_of_int (10 ^ 25) \<le> \<bar>r\<bar> * 10 ^ 4 + 1 / 2" using assms by simp
  then have "(10 ^ 25 :: int) \<le> \<lfloor>\<bar>r\<bar> * 10 ^ 4 + 1 / 2\<rfloor>" by (simp only: le_floor_iff)
  then have "real_of_int (10 ^ 25) \<le> real_of_int \<lfloor>\<bar>r\<bar> * 10 ^ 4 + 1 / 2\<rfloor>"
    by (simp only: of_int_le_iff)
  then have "real_of_int (10 ^ 25) \<le> \<bar>roundTo4 r\<bar> * 10 ^ 4" by (simp only: roundTo4_abs)
  then show ?thesis by simp
qed

lemma numberToString_roundTo4:
  "numberToString (Fin (roundTo4 r)) =
     (if \<bar>roundTo4 r\<bar> < 2 ^ 39 then Inr (decimalDigits (roundTo4 r)) else Inl NotModelled)"
proof -
  have "real_of_int \<lfloor>\<bar>roundTo4 r\<bar> * 10 ^ 4\<rfloor> = \<bar>roundTo4 r\<bar> * 10 ^ 4"
    by (simp only: roundTo4_abs floor_of_int)
  then show ?thesis by (simp add: numberToString_def)
qed

lemma coordinate_text:
  "bind (cleanNumber num) numberToString =
     (if inRange num then Inr (coordinateText num) else Inl NotModelled)"
proof (cases num)
  case (Fin r)
  show ?thesis
  proof (cases "\<bar>r\<bar> \<ge> 10 ^ 21")
    case True
    have "(2 :: real) ^ 39 \<le> 10 ^ 21" by simp
    with roundTo4_large [OF True] have "\<not> \<bar>roundTo4 r\<bar> < 2 ^ 39" by linarith
    with True Fin show ?thesis
      by (simp add: cleanNumber_Fin bind_def inRange_def)
  next
    case False
    with Fin show ?thesis
      by (simp add: cleanNumber_Fin bind_def inRange_def coordinateText_def
          numberToString_roundTo4)
  qed
next
  case PInf
  have "parseFloat ''Infinity'' = PInf" by (simp add: parseFloat_def js_inf_def)
  with PInf show ?thesis
    by (simp add: cleanNumber_def toFixed_def bind_def numberToString_def coordinateText_def
        inRange_def)
next
  case NInf
  have "parseFloat ''-Infinity'' = NInf" by (simp add: parseFloat_def js_inf_def)
  with NInf show ?thesis
    by (simp add: cleanNumber_def toFixed_def bind_def numberToString_def coordinateText_def
        inRange_def)
next
  case NaN
  have "parseFloat ''NaN'' = NaN" by (simp add: parseFloat_def isDigit_def)
  with NaN show ?thesis
    by (simp add: cleanNumber_def toFixed_def bind_def numberToString_def coordinateText_def
        inRange_def)
qed

lemma bind_assoc: "bind (bind m f) g = bind m (\<lambda>a. bind (f a) g)"
  by (cases m) (simp_all add: bind_def)

lemma Point_toString_text:
  "Point_toString p =
     (if inRange (x p) \<and> inRange (y p) then Inr (pointText p) else Inl NotModelled)"
proof -
  have "Point_toString p =
          bind (bind (cleanNumber (x p)) numberToString) (\<lambda>stringX.
          bind (bind (cleanNumber (y p)) numberToString) (\<lambda>stringY.
          Inr (stringX @ '','' @ stringY)))"
    by (simp add: Point_toString_def bind_assoc)
  then have "Point_toString p =
          bind (if inRange (x p) then Inr (coordinateText (x p)) else Inl NotModelled) (\<lambda>stringX.
          bind (if inRange (y p) then Inr (coordinateText (y p)) else Inl NotModelled) (\<lambda>stringY.
          Inr (stringX @ '','' @ stringY)))"
    by (simp only: coordinate_text)
  then show ?thesis
    by (simp add: pointText_def bind_def)
qed

lemma PathCommand_toString_loop_text:
  "PathCommand_toString_loop pts i string =
     (if \<forall>p \<in> set pts. inRange (x p) \<and> inRange (y p)
      then Inr (string @ (if i \<ge> 1 \<and> pts \<noteq> [] then '','' else '''') @
                join '','' (map pointText pts))
      else Inl NotModelled)"
proof (induction pts arbitrary: i string)
  case Nil
  then show ?case by simp
next
  case (Cons p pts)
  show ?case
  proof (cases "inRange (x p) \<and> inRange (y p)")
    case True
    then have "PathCommand_toString_loop (p # pts) i string =
        PathCommand_toString_loop pts (i + 1)
          ((if i \<ge> 1 then string @ '','' else string) @ pointText p)"
      by (simp add: Point_toString_text bind_def)
    also have "\<dots> =
        (if \<forall>p \<in> set pts. inRange (x p) \<and> inRange (y p)
         then Inr (((if i \<ge> 1 then string @ '','' else string) @ pointText p) @
                (if i + 1 \<ge> 1 \<and> pts \<noteq> [] then '','' else '''') @
                join '','' (map pointText pts))
         else Inl NotModelled)"
      by (rule Cons.IH)
    finally show ?thesis using True by (cases pts) auto
  next
    case False
    then show ?thesis by (auto simp: Point_toString_text bind_def)
  qed
qed

lemma PathCommand_toString_text:
  "PathCommand_toString c =
     (if \<forall>p \<in> set (points c). inRange (x p) \<and> inRange (y p)
      then Inr (commandText c) else Inl NotModelled)"
  by (simp add: PathCommand_toString_def PathCommand_toString_loop_text commandText_def)

lemma Path_toString_loop_text:
  "Path_toString_loop cs string =
     (if \<forall>c \<in> set cs. \<forall>p \<in> set (points c). inRange (x p) \<and> inRange (y p)
      then Inr (string @ concat (map commandText cs)) else Inl NotModelled)"
proof (induction cs arbitrary: string)
  case Nil
  then show ?case by simp
next
  case (Cons c cs)
  show ?case
  proof (cases "\<forall>p \<in> set (points c). inRange (x p) \<and> inRange (y p)")
    case True
    then show ?thesis by (simp add: Cons.IH PathCommand_toString_text bind_def)
  next
    case False
    then show ?thesis by (auto simp: PathCommand_toString_text bind_def)
  qed
qed

lemma rev_dropWhile_zero:
  fixes ds :: string
  defines "fs \<equiv> rev (dropWhile (\<lambda>c. c = CHR ''0'') (rev ds))"
  shows "set fs \<subseteq> set ds" "length fs \<le> length ds" "fs \<noteq> [] \<Longrightarrow> last fs \<noteq> CHR ''0''"
proof -
  show "set fs \<subseteq> set ds" unfolding fs_def using set_dropWhileD by fastforce
  show "length fs \<le> length ds" unfolding fs_def
    using length_dropWhile_le [of "\<lambda>c. c = CHR ''0''" "rev ds"] by simp
  assume "fs \<noteq> []"
  then have ne: "dropWhile (\<lambda>c. c = CHR ''0'') (rev ds) \<noteq> []" by (simp add: fs_def)
  then have "\<not> (hd (dropWhile (\<lambda>c. c = CHR ''0'') (rev ds)) = CHR ''0'')"
    by (rule hd_dropWhile)
  then show "last fs \<noteq> CHR ''0''" using ne by (simp add: fs_def last_rev)
qed

lemma isShortDecimal_decimalDigits: "isShortDecimal (decimalDigits r)"
proof -
  define n where "n = nat \<lfloor>\<bar>r\<bar> * 10 ^ 4\<rfloor>"
  define ip where "ip = digitsOfNat (n div 10 ^ 4)"
  define padded where "padded = replicate (4 - length (digitsOfNat (n mod 10 ^ 4))) CHR ''0'' @
                                digitsOfNat (n mod 10 ^ 4)"
  define fs where "fs = rev (dropWhile (\<lambda>c. c = CHR ''0'') (rev padded))"
  define tail where "tail = (if fs = [] then [] else ''.'' @ fs)"
  have dd: "decimalDigits r = (if r < 0 then ''-'' else '''') @ ip @ tail"
    by (simp add: decimalDigits_def Let_def n_def ip_def padded_def fs_def tail_def)
  have ip: "ip \<noteq> []" "list_all isDigit ip"
    by (simp_all add: ip_def digitsOfNat_nonempty digitsOfNat_digits)
  have "length (digitsOfNat (n mod 10 ^ 4)) \<le> 4"
    by (rule length_digitsOfNat) simp_all
  then have pl: "length padded = 4" by (simp add: padded_def)
  have z: "isDigit CHR ''0''" by (simp add: isDigit_def)
  have pd: "list_all isDigit padded"
    using digitsOfNat_digits [of "n mod 10 ^ 4"] z by (auto simp: padded_def list_all_iff)
  note f = rev_dropWhile_zero [of padded, folded fs_def]
  have fd: "list_all isDigit fs" using f(1) pd by (auto simp: list_all_iff)
  have fl: "length fs \<le> 4" using f(2) pl by simp
  have p: "\<not> isDigit CHR ''.''" by (simp add: isDigit_def)
  from ip(2) have a: "\<And>c. c \<in> set ip \<Longrightarrow> isDigit c" by (simp add: list_all_iff)
  have tw: "takeWhile isDigit (ip @ tail) = ip" "dropWhile isDigit (ip @ tail) = tail"
    using a p by (simp_all add: tail_def takeWhile_append2 dropWhile_append2)
  have sg: "take 1 (ip @ tail) \<noteq> ''-''"
    using isDigit_hd_facts(1) [OF ip] .
  have tl: "tail = [] \<or> (take 1 tail = ''.'' \<and> drop 1 tail \<noteq> [] \<and> length (drop 1 tail) \<le> 4 \<and>
           list_all isDigit (drop 1 tail) \<and> last tail \<noteq> CHR ''0'')"
    using fd fl f(3) by (simp add: tail_def)
  have u: "(if take 1 (decimalDigits r) = ''-'' then drop 1 (decimalDigits r) else decimalDigits r) =
           ip @ tail"
  proof (cases "r < 0")
    case True
    then have "decimalDigits r = ''-'' @ ip @ tail" by (simp add: dd)
    then show ?thesis by simp
  next
    case False
    then have "decimalDigits r = ip @ tail" by (simp add: dd)
    then show ?thesis using sg by (simp only:) simp
  qed
  show ?thesis
    unfolding isShortDecimal_def Let_def u tw using ip(1) tl by blast
qed

text \<open>
  Claim C7, as amended. In the path mode every coordinate whose rounded magnitude is
  below \<open>2^39\<close> (549755813888) is rounded to four decimal places and printed as the
  shortest decimal of the rounded number: at most four digits after the point, no
  trailing zero and no point without a fraction, so that an \<open>x\<close> of 8 prints as
  \<open>8\<close>. The text of the path is the texts of its commands one after the other, each
  the letter of the command followed by its points, coordinates and points separated by
  single commas and nothing else. (From \<open>2^39\<close> on the printed digits are those of
  the nearest double and from \<open>1e21\<close> on JavaScript prints exponents; neither is
  modelled, and \<open>Path_toString\<close> gives no text there.)
\<close>

theorem Path_toString_text:
  "Path_toString path =
     (if \<forall>c \<in> set (commands path). \<forall>p \<in> set (points c). inRange (x p) \<and> inRange (y p)
      then Inr (concat (map commandText (commands path))) else Inl NotModelled) \<and>
   (\<forall>r. isShortDecimal (coordinateText (Fin r)))"
  by (simp add: Path_toString_def Path_toString_loop_text coordinateText_def
      isShortDecimal_decimalDigits)

theorem Path_toString_text_witness:
  "Path_toString
     \<lparr>commands = [\<lparr>command = ''M'', points = [\<lparr>x = Fin 0, y = Fin 0\<rparr>]\<rparr>,
                  \<lparr>command = ''C'', points = [\<lparr>x = Fin (79992 / 10000), y = Fin (79992 / 30000)\<rparr>,
                     \<lparr>x = Fin (160008 / 10000), y = Fin (- (973336 / 10000))\<rparr>,
                     \<lparr>x = Fin 24, y = Fin (- 100)\<rparr>]\<rparr>]\<rparr> =
     Inr ''M0,0C7.9992,2.6664,16.0008,-97.3336,24,-100'' \<and>
   coordinateText (Fin (79992 / 30000)) = ''2.6664'' \<and> isShortDecimal ''2.6664''"
proof -
  let ?path = "\<lparr>commands = [\<lparr>command = ''M'', points = [\<lparr>x = Fin 0, y = Fin 0\<rparr>]\<rparr>,
                  \<lparr>command = ''C'', points = [\<lparr>x = Fin (79992 / 10000), y = Fin (79992 / 30000)\<rparr>,
                     \<lparr>x = Fin (160008 / 10000), y = Fin (- (973336 / 10000))\<rparr>,
                     \<lparr>x = Fin 24, y = Fin (- 100)\<rparr>]\<rparr>]\<rparr>"
  note t = Path_toString_text [where path = ?path]
  have r: "\<forall>c \<in> set (commands ?path). \<forall>p \<in> set (points c). inRange (x p) \<and> inRange (y p)"
    by (simp add: inRange_def roundTo4_def)
  have c: "concat (map commandText (commands ?path)) =
             ''M0,0C7.9992,2.6664,16.0008,-97.3336,24,-100''"
    by (simp add: commandText_def pointText_def coordinateText_def roundTo4_def text_eval)
  have e: "coordinateText (Fin (79992 / 30000)) = ''2.6664''"
    by (simp add: coordinateText_def roundTo4_def text_eval)
  from t have "isShortDecimal (coordinateText (Fin (79992 / 30000)))" by blast
  then have s: "isShortDecimal ''2.6664''" by (simp only: e)
  have "Path_toString ?path = Inr (concat (map commandText (commands ?path)))"
    by (simp only: conjunct1 [OF t] if_P [OF r])
  then have "Path_toString ?path = Inr ''M0,0C7.9992,2.6664,16.0008,-97.3336,24,-100''"
    by (simp only: c)
  with e s show ?thesis by (intro conjI)
qed

text \<open>
  The claim as it was stated, with exactly four decimal places everywhere, fails on a
  path that starts at \<open>(8, 0)\<close>: it prints \<open>M8,0\<close>.
\<close>

theorem Path_toString_text_counterexample:
  "Path_toString \<lparr>commands = [\<lparr>command = ''M'', points = [\<lparr>x = Fin 8, y = Fin 0\<rparr>]\<rparr>]\<rparr> =
     Inr ''M8,0'' \<and> ''M8,0'' \<noteq> ''M8.0000,0.0000''"
  by (simp add: text_eval)

text \<open>
  Claim C2, as amended. For \<open>frameRate = 30\<close>, keys at frames 0 and 24 with the
  values 0 and -100, an outgoing ease of speed 10 and influence 33.33 and an incoming
  ease of speed -10 and influence 33.33, the outgoing control point is
  \<open>(7.9992, 2.6664)\<close>, since \<open>24 * 0.3333 = 7.9992\<close>, and the cubic command
  serialises to \<open>C7.9992,2.6664,16.0008,-97.3336,24,-100\<close>.
\<close>

theorem example_cubic_command:
  "calcOutgoingControlPoint (Fin 30) (calcTweenData (Fin 30) exampleProperty 1 2) exampleProperty 1 =
     Inr \<lparr>x = Fin (79992 / 10000), y = Fin (26664 / 10000)\<rparr> \<and>
   bind (snd (getCommand (Fin 30) exampleProperty 1)) PathCommand_toString =
     Inr ''C7.9992,2.6664,16.0008,-97.3336,24,-100''"
  by (simp add: example_defs getCommand_def calcEaseType_def calcTweenData_def
      calcOutgoingControlPoint_def calcIncomingControlPoint_def new_PathCommand_def js_sub_def
      text_eval)

text \<open>
  The point is not \<open>(8.0, 2.6667)\<close> and the text does not begin with
  \<open>C8.0000,2.6667,\<close>.
\<close>

theorem example_cubic_command_counterexample:
  "calcOutgoingControlPoint (Fin 30) (calcTweenData (Fin 30) exampleProperty 1 2) exampleProperty 1 \<noteq>
     Inr \<lparr>x = Fin 8, y = Fin (26667 / 10000)\<rparr> \<and>
   bind (snd (getCommand (Fin 30) exampleProperty 1)) PathCommand_toString =
     Inr ''C7.9992,2.6664,16.0008,-97.3336,24,-100'' \<and>
   take 15 ''C7.9992,2.6664,16.0008,-97.3336,24,-100'' \<noteq> ''C8.0000,2.6667,''"
  by (simp add: example_defs getCommand_def calcEaseType_def calcTweenData_def
      calcOutgoingControlPoint_def calcIncomingControlPoint_def new_PathCommand_def js_sub_def
      text_eval)

section \<open>Normalized curves\<close>

lemma toFixed_special:
  "toFixed f NaN = Inr ''NaN''" "toFixed f PInf = Inr ''Infinity''"
  "toFixed f NInf = Inr ''-Infinity''"
  by (simp_all add: toFixed_def)

lemma toFixed_ten:
  "toFixed 2 (Fin 10) = Inr ''10.00''" "toFixed 2 (Fin (- 10)) = Inr ''-10.00''"
  by (simp_all add: text_eval)

lemma isNaN_texts:
  "isNaN ''NaN''" "\<not> isNaN ''Infinity''" "\<not> isNaN ''-Infinity''"
  "\<not> isNaN ''10.00''" "\<not> isNaN ''-10.00''"
  by (simp_all add: isNaN_def parseFloat_def js_inf_def isDigit_def Let_def)

text \<open>The normalized value when the two ends of the axis are the same finite number.\<close>

lemma normalize_flat:
  "normalize config val (Fin v) (Fin v) =
     (if val = Fin v \<or> val = NaN then NaN
      else if js_gt val (Fin v)
           then (if clampInfiniteValues config then Fin 10 else PInf)
           else (if clampInfiniteValues config then Fin (- 10) else NInf))"
  by (cases val) (auto simp: normalize_def js_sub_def js_eq_def js_inf_def Let_def)

lemma flat_text:
  assumes "toFixed 2 (normalize config val (Fin v) (Fin v)) = Inr t"
  shows "(val = Fin v \<or> val = NaN \<longrightarrow> isNaN t) \<and>
         (js_gt val (Fin v) \<longrightarrow>
            t = (if clampInfiniteValues config then ''10.00'' else ''Infinity'') \<and> \<not> isNaN t) \<and>
         (js_gt (Fin v) val \<longrightarrow>
            t = (if clampInfiniteValues config then ''-10.00'' else ''-Infinity'') \<and> \<not> isNaN t)"
proof -
  have gt: "js_gt (Fin v) val \<Longrightarrow> \<not> js_gt val (Fin v) \<and> val \<noteq> Fin v \<and> val \<noteq> NaN"
    by (cases val) auto
  have gt': "js_gt val (Fin v) \<Longrightarrow> val \<noteq> Fin v \<and> val \<noteq> NaN"
    by (cases val) auto
  show ?thesis
    using assms gt gt'
    by (auto simp: normalize_flat toFixed_special toFixed_ten isNaN_texts split: if_splits)
qed

lemma flat_choice:
  assumes "toFixed 2 (normalize config val (Fin v) (Fin v)) = Inr t"
  shows "(val = Fin v \<or> val = NaN \<longrightarrow> (if isNaN t then other else t) = other) \<and>
         (js_gt val (Fin v) \<longrightarrow> (if isNaN t then other else t) =
            (if clampInfiniteValues config then ''10.00'' else ''Infinity'')) \<and>
         (js_gt (Fin v) val \<longrightarrow> (if isNaN t then other else t) =
            (if clampInfiniteValues config then ''-10.00'' else ''-Infinity''))"
proof (intro conjI impI)
  assume "val = Fin v \<or> val = NaN"
  with flat_text [OF assms] have "isNaN t" by blast
  then show "(if isNaN t then other else t) = other" by simp
next
  assume "js_gt val (Fin v)"
  with flat_text [OF assms]
  have e: "t = (if clampInfiniteValues config then ''10.00'' else ''Infinity'')" and n: "\<not> isNaN t"
    by blast+
  show "(if isNaN t then other else t) =
      (if clampInfiniteValues config then ''10.00'' else ''Infinity'')"
    unfolding if_not_P [OF n] by (rule e)
next
  assume "js_gt (Fin v) val"
  with flat_text [OF assms]
  have e: "t = (if clampInfiniteValues config then ''-10.00'' else ''-Infinity'')" and n: "\<not> isNaN t"
    by blast+
  show "(if isNaN t then other else t) =
      (if clampInfiniteValues config then ''-10.00'' else ''-Infinity'')"
    unfolding if_not_P [OF n] by (rule e)
qed

lemma bind_Inr_iff: "bind m f = Inr b \<longleftrightarrow> (\<exists>a. m = Inr a \<and> f a = Inr b)"
  by (cases m) (simp_all add: bind_def)

text \<open>
  Claim C6, as amended. In the array mode, for a segment whose start value and end
  value are the same finite number, the normalized Y of a control point is that point's
  normalized X when the \<open>y\<close> of the control point is the start value (the
  normalization is then \<open>0 / 0\<close>) or is \<open>NaN\<close>. When the \<open>y\<close> of the control
  point is above or below the start value, the normalization divides by zero into an
  infinity, and the normalized Y is \<open>10.00\<close> or \<open>-10.00\<close> with the clamping on,
  \<open>Infinity\<close> or \<open>-Infinity\<close> with the clamping off.
\<close>

theorem getNormalizedCurve_flat:
  assumes "startValue tweenData = Fin v" "endValue tweenData = Fin v"
    and "getNormalizedCurve config tweenData p0 p1 = Inr [x1, y1, x2, y2]"
  shows "(y p0 = Fin v \<or> y p0 = NaN \<longrightarrow> y1 = x1) \<and>
         (js_gt (y p0) (Fin v) \<longrightarrow>
            y1 = (if clampInfiniteValues config then ''10.00'' else ''Infinity'')) \<and>
         (js_gt (Fin v) (y p0) \<longrightarrow>
            y1 = (if clampInfiniteValues config then ''-10.00'' else ''-Infinity'')) \<and>
         (y p1 = Fin v \<or> y p1 = NaN \<longrightarrow> y2 = x2) \<and>
         (js_gt (y p1) (Fin v) \<longrightarrow>
            y2 = (if clampInfiniteValues config then ''10.00'' else ''Infinity'')) \<and>
         (js_gt (Fin v) (y p1) \<longrightarrow>
            y2 = (if clampInfiniteValues config then ''-10.00'' else ''-Infinity''))"
proof -
  from assms(3) have "\<exists>a. toFixed 2 (normalize config (x p0) (startFrame tweenData) (endFrame tweenData)) = Inr a \<and>
      (\<exists>b. toFixed 2 (normalize config (y p0) (Fin v) (Fin v)) = Inr b \<and>
      (\<exists>c. toFixed 2 (normalize config (x p1) (startFrame tweenData) (endFrame tweenData)) = Inr c \<and>
      (\<exists>d. toFixed 2 (normalize config (y p1) (Fin v) (Fin v)) = Inr d \<and>
         Inr [a, if isNaN b then a else b, c, if isNaN d then c else d] =
         (Inr [x1, y1, x2, y2] :: error + string list))))"
    by (simp only: getNormalizedCurve_def bind_Inr_iff Let_def assms(1,2))
  then obtain a t1 c t2
    where t1: "toFixed 2 (normalize config (y p0) (Fin v) (Fin v)) = Inr t1"
      and t2: "toFixed 2 (normalize config (y p1) (Fin v) (Fin v)) = Inr t2"
      and eq: "Inr [a, if isNaN t1 then a else t1, c, if isNaN t2 then c else t2] =
               (Inr [x1, y1, x2, y2] :: error + string list)"
    by blast
  from eq have y1: "y1 = (if isNaN t1 then x1 else t1)" and y2: "y2 = (if isNaN t2 then x2 else t2)"
    by auto
  from flat_choice [OF t1, of x1] flat_choice [OF t2, of x2] show ?thesis
    unfolding y1 y2 by blast
qed

lemmas array_eval =
  getBezierVals_def getNormalizedCurve_def normalize_def calcTweenData_def
  calcOutgoingControlPoint_def calcIncomingControlPoint_def isNaN_def js_sub_def js_eq_def
  js_inf_def

theorem getNormalizedCurve_flat_witness:
  "(startValue (calcTweenData (Fin 30) flatProperty 1 2) = Fin 0 \<and>
    endValue (calcTweenData (Fin 30) flatProperty 1 2) = Fin 0 \<and>
    getNormalizedCurve arrayConfig (calcTweenData (Fin 30) flatProperty 1 2)
      \<lparr>x = Fin (79992 / 10000), y = Fin 0\<rparr> \<lparr>x = Fin (160008 / 10000), y = Fin (26664 / 10000)\<rparr> =
      Inr [''0.33'', ''0.33'', ''0.67'', ''10.00'']) \<and>
   ''0.33'' = ''0.33'' \<and> js_gt (Fin (26664 / 10000)) (Fin 0) \<and>
   ''10.00'' = (if clampInfiniteValues arrayConfig then ''10.00'' else ''Infinity'')"
proof -
  have 1: "startValue (calcTweenData (Fin 30) flatProperty 1 2) = Fin 0"
    and 2: "endValue (calcTweenData (Fin 30) flatProperty 1 2) = Fin 0"
    by (simp_all add: example_defs calcTweenData_def Let_def)
  have 3: "getNormalizedCurve arrayConfig (calcTweenData (Fin 30) flatProperty 1 2)
      \<lparr>x = Fin (79992 / 10000), y = Fin 0\<rparr> \<lparr>x = Fin (160008 / 10000), y = Fin (26664 / 10000)\<rparr> =
      Inr [''0.33'', ''0.33'', ''0.67'', ''10.00'']"
    by (simp add: example_defs array_eval text_eval)
  from getNormalizedCurve_flat [OF 1 2 3]
  have "''0.33'' = ''0.33''" "js_gt (Fin (26664 / 10000)) (Fin 0)"
    "''10.00'' = (if clampInfiniteValues arrayConfig then ''10.00'' else ''Infinity'')"
    by simp_all
  with 1 2 3 show ?thesis by (intro conjI)
qed

text \<open>
  The claim as it was stated fails on a segment that leaves 0 at speed 10 and is back
  at 0 at its end: the normalized X are \<open>0.33\<close> and \<open>0.67\<close>, the normalized Y are
  both \<open>10.00\<close>.
\<close>

theorem getNormalizedCurve_flat_counterexample:
  "startValue (calcTweenData (Fin 30) flatProperty 1 2) = Fin 0 \<and>
   endValue (calcTweenData (Fin 30) flatProperty 1 2) = Fin 0 \<and>
   getBezierVals arrayConfig (Fin 30) flatProperty 1 2 = Inr [''0.33'', ''10.00'', ''0.67'', ''10.00''] \<and>
   ''10.00'' \<noteq> ''0.33'' \<and> ''10.00'' \<noteq> ''0.67''"
  by (simp add: example_defs array_eval text_eval)

section \<open>The array mode and the classifier\<close>









text \<open>In the path mode the same property raises the warning.\<close>

lemma path_mode_warns:
  "fst (getCommand (Fin 30) (exampleProperty\<lparr>keyOutInterpolationType := \<lambda>i. HOLD,
                                 keyInInterpolationType := \<lambda>i. HOLD\<rparr>) 1) = [unsupportedAlert]"
  by (simp add: getCommand_def calcEaseType_def unsupportedAlert_def Let_def)

section \<open>Points in the store\<close>

lemma store_invertPoints_length [simp]: "length (store_invertPoints rs s) = length s"
  by (induction rs arbitrary: s) simp_all

lemma store_invertYAxis_length [simp]: "length (store_invertYAxis cs s) = length s"
  by (induction cs arbitrary: s) simp_all

lemma store_invertPoints_x: "x (store_invertPoints rs s ! i) = x (s ! i)"
proof (induction rs arbitrary: s)
  case Nil
  then show ?case by simp
next
  case (Cons r rs)
  show ?case
    by (cases "r < length s") (simp_all add: Cons.IH nth_list_update list_update_beyond)
qed

lemma store_invertYAxis_x: "x (store_invertYAxis cs s ! i) = x (s ! i)"
  by (induction cs arbitrary: s) (simp_all add: store_invertPoints_x)

lemma store_invertPoints_other: "i \<notin> set rs \<Longrightarrow> store_invertPoints rs s ! i = s ! i"
  by (induction rs arbitrary: s) auto

lemma store_invertYAxis_other: "i \<notin> set (pathRefs cs) \<Longrightarrow> store_invertYAxis cs s ! i = s ! i"
  by (induction cs arbitrary: s) (auto simp: pathRefs_def store_invertPoints_other)

lemma store_invertPoints_nth:
  "distinct rs \<Longrightarrow> i \<in> set rs \<Longrightarrow> i < length s \<Longrightarrow>
   store_invertPoints rs s ! i = invertPoint (s ! i)"
proof (induction rs arbitrary: s)
  case Nil
  then show ?case by simp
next
  case (Cons r rs)
  show ?case
  proof (cases "i = r")
    case True
    with Cons.prems have "i \<notin> set rs" by simp
    then show ?thesis using True Cons.prems(3)
      by (simp add: store_invertPoints_other invertPoint_def)
  next
    case False
    with Cons.prems have "i \<in> set rs" "distinct rs" by simp_all
    with Cons.IH [of "s[r := (s ! r)\<lparr>y := js_mul (y (s ! r)) (Fin (- 1))\<rparr>]"] Cons.prems(3) False
    show ?thesis by simp
  qed
qed

lemma store_invertYAxis_nth:
  "distinct (pathRefs cs) \<Longrightarrow> i \<in> set (pathRefs cs) \<Longrightarrow> i < length s \<Longrightarrow>
   store_invertYAxis cs s ! i = invertPoint (s ! i)"
proof (induction cs arbitrary: s)
  case Nil
  then show ?case by (simp add: pathRefs_def)
next
  case (Cons c cs)
  from Cons.prems(1) have d: "distinct (obj_points c)" "distinct (pathRefs cs)"
    "set (obj_points c) \<inter> set (pathRefs cs) = {}"
    by (simp_all add: pathRefs_def)
  show ?case
  proof (cases "i \<in> set (obj_points c)")
    case True
    with d(3) have "i \<notin> set (pathRefs cs)" by auto
    then show ?thesis using True d(1) Cons.prems(3)
      by (simp add: store_invertYAxis_other store_invertPoints_nth)
  next
    case False
    with Cons.prems(2) have "i \<in> set (pathRefs cs)" by (simp add: pathRefs_def)
    with Cons.IH [OF d(2), of "store_invertPoints (obj_points c) s"] Cons.prems(3) False
    show ?thesis by (simp add: store_invertPoints_other)
  qed
qed

text \<open>
  On a path whose points are distinct objects of the store, the in-place inversion
  reads back as the inversion on values.
\<close>

lemma readPath_store_invertYAxis:
  assumes "distinct (pathRefs cs)" "\<forall>r \<in> set (pathRefs cs). r < length s"
  shows "readPath (store_invertYAxis cs s) cs = invertYAxis (readPath s cs)"
proof -
  have "\<And>c r. c \<in> set cs \<Longrightarrow> r \<in> set (obj_points c) \<Longrightarrow>
          store_invertYAxis cs s ! r = invertPoint (s ! r)"
    using assms by (intro store_invertYAxis_nth) (auto simp: pathRefs_def)
  then show ?thesis
    by (simp add: readPath_def readCommand_def invertYAxis_def)
qed

lemma store_coordinatePoints_eq:
  "store_coordinatePoints cs s =
     ([length s ..< length s + length (coordinatePoints cs)], s @ coordinatePoints cs)"
proof (induction cs arbitrary: s rule: coordinatePoints.induct)
  case (1 a b cs)
  have "[length s ..< Suc (length s + length (coordinatePoints cs))] =
        length s # [Suc (length s) ..< Suc (length s + length (coordinatePoints cs))]"
    by (simp add: upt_rec)
  then show ?case by (simp add: 1 store_new_Point_def)
qed simp_all

lemma store_new_PathCommand_eq:
  "store_new_PathCommand cmd coordinates s =
     (case new_PathCommand cmd coordinates of
        Inl e \<Rightarrow> Inl e
      | Inr c \<Rightarrow> Inr (store_place c s))"
  by (simp add: store_new_PathCommand_def new_PathCommand_def store_coordinatePoints_eq
      store_place_def)

lemma store_getCommand_eq:
  "store_getCommand framerate property keyIndex s =
     (case getCommand framerate property keyIndex of
        (evs, Inl e) \<Rightarrow> (evs, Inl e)
      | (evs, Inr c) \<Rightarrow> (evs, Inr (store_place c s)))"
proof -
  have three: "[length s ..< length s + 3] = [length s, Suc (length s), Suc (Suc (length s))]"
    by (simp add: upt_rec)
  show ?thesis
    by (simp add: store_getCommand_def getCommand_def Let_def store_new_PathCommand_eq
        new_PathCommand_def store_place_def store_new_Point_def bind_def three
        split: sum.splits)
qed

lemma map_nth_append_upt: "map (\<lambda>r. (s @ pts) ! r) [length s ..< length s + length pts] = pts"
proof -
  have "[length s ..< length s + length pts] = map (\<lambda>i. i + length s) [0 ..< length pts]"
    by (simp add: map_add_upt add.commute)
  then have "map (\<lambda>r. (s @ pts) ! r) [length s ..< length s + length pts] =
             map (\<lambda>i. pts ! i) [0 ..< length pts]"
    by (simp add: comp_def nth_append)
  then show ?thesis by (simp add: map_nth)
qed

lemma readPath_append_store:
  assumes "\<forall>r \<in> set (pathRefs path). r < length s"
  shows "readPath (s @ new) path = readPath s path"
  using assms by (auto simp: readPath_def readCommand_def pathRefs_def nth_append)

lemma store_place_invariant:
  assumes "pathRefs path = [0 ..< length s]" "store_place c s = (obj, s')"
  shows "pathRefs (path @ [obj]) = [0 ..< length s']"
    and "readPath s' (path @ [obj]) = \<lparr>commands = commands (readPath s path) @ [c]\<rparr>"
    and "s' = s @ points c"
proof -
  have "obj = fst (store_place c s)" "s' = snd (store_place c s)"
    by (simp_all add: assms(2))
  then have obj: "obj = \<lparr>obj_command = command c,
      obj_points = [length s ..< length s + length (points c)]\<rparr>" and s': "s' = s @ points c"
    by (simp_all only: store_place_def fst_conv snd_conv)
  show "s' = s @ points c" by (rule s')
  have up: "[0 ..< length s + length (points c)] =
            [0 ..< length s] @ [length s ..< length s + length (points c)]"
    by (rule upt_add_eq_append) simp
  have "pathRefs (path @ [obj]) = pathRefs path @ obj_points obj"
    by (simp add: pathRefs_def)
  also have "\<dots> = [0 ..< length s] @ [length s ..< length s + length (points c)]"
    by (simp only: assms(1) obj PathCommandObj.simps)
  also have "\<dots> = [0 ..< length s']"
    by (simp only: s' length_append up)
  finally show "pathRefs (path @ [obj]) = [0 ..< length s']" .
  have old: "\<forall>r \<in> set (pathRefs path). r < length s" using assms(1) by simp
  have "readCommand s' obj = c"
    by (simp add: readCommand_def obj s' map_nth_append_upt)
  then show "readPath s' (path @ [obj]) = \<lparr>commands = commands (readPath s path) @ [c]\<rparr>"
    using readPath_append_store [OF old, of "points c"]
    by (simp add: readPath_def s')
qed

lemma store_getPath_loop_refines:
  assumes "pathRefs path = [0 ..< length s]"
  shows "case store_getPath_loop framerate property is path s of
           (evs, Inl e) \<Rightarrow> getPath_loop framerate property is (readPath s path) = (evs, Inl e)
         | (evs, Inr (path', s')) \<Rightarrow>
             getPath_loop framerate property is (readPath s path) = (evs, Inr (readPath s' path')) \<and>
             pathRefs path' = [0 ..< length s'] \<and> take (length s) s' = s"
  using assms
proof (induction "is" arbitrary: path s)
  case Nil
  then show ?case by simp
next
  case (Cons i "is")
  obtain evs1 r1 where g: "getCommand framerate property i = (evs1, r1)"
    by (cases "getCommand framerate property i")
  show ?case
  proof (cases r1)
    case (Inl e)
    with g show ?thesis by (simp add: store_getCommand_eq bind_io_Inl)
  next
    case (Inr c)
    obtain obj s1 where p: "store_place c s = (obj, s1)" by (cases "store_place c s")
    note inv = store_place_invariant [OF Cons.prems p]
    have rp: "(readPath s path)\<lparr>commands := commands (readPath s path) @ [c]\<rparr> =
              readPath s1 (path @ [obj])"
      by (simp add: inv(2))
    obtain evs2 r2 where l: "store_getPath_loop framerate property is (path @ [obj]) s1 = (evs2, r2)"
      by (cases "store_getPath_loop framerate property is (path @ [obj]) s1")
    from Cons.IH [OF inv(1)] l
    have ih: "case r2 of
           Inl e \<Rightarrow> getPath_loop framerate property is (readPath s1 (path @ [obj])) = (evs2, Inl e)
         | Inr (path', s') \<Rightarrow>
             getPath_loop framerate property is (readPath s1 (path @ [obj])) =
               (evs2, Inr (readPath s' path')) \<and>
             pathRefs path' = [0 ..< length s'] \<and> take (length s1) s' = s1"
      by simp
    have st: "store_getPath_loop framerate property (i # is) path s = (evs1 @ evs2, r2)"
      using g Inr p l by (simp add: store_getCommand_eq bind_io_Inr)
    have pu: "getPath_loop framerate property (i # is) (readPath s path) =
              (evs1 @ fst (getPath_loop framerate property is (readPath s1 (path @ [obj]))),
               snd (getPath_loop framerate property is (readPath s1 (path @ [obj]))))"
      using g Inr by (simp add: bind_io_Inr rp)
    show ?thesis
    proof (cases r2)
      case (Inl e)
      with ih st pu show ?thesis by simp
    next
      case r2: (Inr ps)
      obtain path' s' where ps: "ps = (path', s')" by (cases ps)
      from ih r2 ps have a: "getPath_loop framerate property is (readPath s1 (path @ [obj])) =
               (evs2, Inr (readPath s' path'))" "pathRefs path' = [0 ..< length s']"
          "take (length s1) s' = s1" by simp_all
      from a(3) inv(3) have "take (length s) s' = s"
        by (metis append_eq_conv_conj take_take min.absorb1 length_append le_add1)
      with a st pu r2 ps show ?thesis by simp
    qed
  qed
qed

lemma store_getCommand_extends:
  assumes "store_getCommand framerate property keyIndex s = (evs, Inr (c, s'))"
  shows "take (length s) s' = s"
proof -
  obtain evs1 r1 where g: "getCommand framerate property keyIndex = (evs1, r1)"
    by (cases "getCommand framerate property keyIndex")
  with assms show ?thesis
    by (cases r1) (auto simp: store_getCommand_eq store_place_def)
qed

lemma store_getPath_built_refines:
  "case store_getPath_built framerate property [] of
     (evs, Inl e) \<Rightarrow> getPath_built framerate property = (evs, Inl e)
   | (evs, Inr (path, s)) \<Rightarrow>
       getPath_built framerate property = (evs, Inr (readPath s path)) \<and>
       pathRefs path = [0 ..< length s]"
proof -
  let ?pt = "\<lparr>x = js_mul (keyTime property 1) framerate, y = firstValue (keyValue property 1)\<rparr>"
  let ?obj = "\<lparr>obj_command = ''M'', obj_points = [0]\<rparr>"
  have inv: "pathRefs [?obj] = [0 ..< length [?pt]]" by (simp add: pathRefs_def)
  have st: "store_getPath_built framerate property [] =
            store_getPath_loop framerate property [1 ..< numKeys property] [?obj] [?pt]"
    by (simp add: store_getPath_built_def Let_def store_new_PathCommand_def store_new_Point_def
        bind_io_def split: prod.splits)
  have pu: "getPath_built framerate property =
            getPath_loop framerate property [1 ..< numKeys property] (readPath [?pt] [?obj])"
    by (simp add: getPath_built_def Let_def new_Path_def new_PathCommand_def bind_def
        bind_io_def readPath_def readCommand_def split: prod.splits)
  from store_getPath_loop_refines [OF inv, of framerate property "[1 ..< numKeys property]"]
  show ?thesis unfolding st pu by (auto split: prod.splits sum.splits)
qed

lemma getEndPoint_readPath:
  "getEndPoint (readPath s path) =
     (case store_getEndPoint path of
        Inl e \<Rightarrow> Inl e
      | Inr None \<Rightarrow> Inr None
      | Inr (Some r) \<Rightarrow> Inr (Some (s ! r)))"
  by (simp add: getEndPoint_def store_getEndPoint_def readPath_def readCommand_def Let_def
      last_map)

lemma store_getPath_refines:
  "case store_getPath framerate property [] of
     (evs, Inl e) \<Rightarrow> getPath framerate property = (evs, Inl e)
   | (evs, Inr None) \<Rightarrow> getPath framerate property = (evs, Inr None)
   | (evs, Inr (Some (path, s))) \<Rightarrow>
       getPath framerate property = (evs, Inr (Some (readPath s path))) \<and>
       distinct (pathRefs path)"
proof (cases "numKeys property \<le> 1")
  case True
  then show ?thesis by (simp add: store_getPath_def getPath_def)
next
  case False
  obtain evs r where b: "store_getPath_built framerate property [] = (evs, r)"
    by (cases "store_getPath_built framerate property []")
  show ?thesis
  proof (cases r)
    case (Inl e)
    with b store_getPath_built_refines [of framerate property] False show ?thesis
      by (simp add: store_getPath_def getPath_def bind_io_Inl)
  next
    case (Inr ps)
    obtain path s where ps: "ps = (path, s)" by (cases ps)
    from b Inr ps store_getPath_built_refines [of framerate property]
    have pb: "getPath_built framerate property = (evs, Inr (readPath s path))"
      and inv: "pathRefs path = [0 ..< length s]" by simp_all
    from inv have d: "distinct (pathRefs path)" "\<forall>r \<in> set (pathRefs path). r < length s"
      by simp_all
    note inverted = readPath_store_invertYAxis [OF d]
    show ?thesis
    proof (cases "store_getEndPoint path")
      case (Inl e)
      with False b Inr ps pb show ?thesis
        by (simp add: store_getPath_def getPath_def bind_io_Inr bind_def getEndPoint_readPath)
    next
      case ep: (Inr endPoint)
      show ?thesis
      proof (cases endPoint)
        case None
        with ep False b Inr ps pb show ?thesis
          by (simp add: store_getPath_def getPath_def bind_io_Inr bind_def getEndPoint_readPath)
      next
        case (Some r)
        with ep False b Inr ps pb d(1) inverted show ?thesis
          by (simp add: store_getPath_def getPath_def bind_io_Inr bind_def getEndPoint_readPath)
      qed
    qed
  qed
qed

text \<open>
  Claim C8, as amended. The \<open>x\<close> of a Point never changes after the Point is
  created, and nothing changes a Point while the path is being built: each
  \<open>getCommand\<close> only adds new Points to the store. The \<open>y\<close> of a Point is
  changed in place by \<open>Path.prototype.invertYAxis\<close>, which \<open>getPath\<close> calls when
  the path ends above the start value of the curve: every Point of the path then has
  its \<open>y\<close> multiplied by \<open>-1\<close>. Otherwise it keeps its \<open>y\<close>.
\<close>

theorem Point_fields_after_construction:
  assumes "1 < numKeys property"
    and "store_getPath_built framerate property [] = (evs, Inr (path, s))"
    and "store_getEndPoint path = Inr (Some endPoint)"
  shows "\<exists>s'. store_getPath framerate property [] = (evs, Inr (Some (path, s'))) \<and>
           length s' = length s \<and>
           (\<forall>r. x (s' ! r) = x (s ! r)) \<and>
           (\<forall>r < length s. y (s' ! r) =
              (if js_gt (y (s ! endPoint)) (firstValue (keyValue property 1))
               then js_mul (y (s ! r)) (Fin (- 1)) else y (s ! r))) \<and>
           (\<forall>i s0 evs0 c s1. store_getCommand framerate property i s0 = (evs0, Inr (c, s1)) \<longrightarrow>
              take (length s0) s1 = s0)"
proof -
  let ?s' = "if js_gt (y (s ! endPoint)) (firstValue (keyValue property 1))
             then store_invertYAxis path s else s"
  from store_getPath_built_refines [of framerate property] assms(2)
  have inv: "pathRefs path = [0 ..< length s]" by simp
  have g: "store_getPath framerate property [] = (evs, Inr (Some (path, ?s')))"
    using assms by (simp add: store_getPath_def bind_io_Inr bind_def)
  have l: "length ?s' = length s" by simp
  have xs: "\<forall>r. x (?s' ! r) = x (s ! r)" by (simp add: store_invertYAxis_x)
  have ys: "\<forall>r < length s. y (?s' ! r) =
              (if js_gt (y (s ! endPoint)) (firstValue (keyValue property 1))
               then js_mul (y (s ! r)) (Fin (- 1)) else y (s ! r))"
  proof (intro allI impI)
    fix r assume r: "r < length s"
    with inv have "distinct (pathRefs path)" "r \<in> set (pathRefs path)" by simp_all
    from store_invertYAxis_nth [OF this r]
    show "y (?s' ! r) =
              (if js_gt (y (s ! endPoint)) (firstValue (keyValue property 1))
               then js_mul (y (s ! r)) (Fin (- 1)) else y (s ! r))"
      by (simp add: invertPoint_def)
  qed
  have ex: "\<forall>i s0 evs0 c s1. store_getCommand framerate property i s0 = (evs0, Inr (c, s1)) \<longrightarrow>
              take (length s0) s1 = s0"
    using store_getCommand_extends by blast
  from g l xs ys ex show ?thesis by blast
qed

lemmas store_eval =
  store_getPath_def store_getPath_built_def store_getCommand_def store_new_PathCommand_def
  store_new_Point_def store_getEndPoint_def calcEaseType_def calcTweenData_def
  calcOutgoingControlPoint_def calcIncomingControlPoint_def bind_def bind_io_def Let_def
  js_sub_def upt_rec

theorem Point_fields_after_construction_witness:
  "1 < numKeys linearProperty \<and>
   store_getPath_built (Fin 30) linearProperty [] =
     ([], Inr ([\<lparr>obj_command = ''M'', obj_points = [0]\<rparr>, \<lparr>obj_command = ''L'', obj_points = [1]\<rparr>],
               [\<lparr>x = Fin 0, y = Fin 0\<rparr>, \<lparr>x = Fin 24, y = Fin 100\<rparr>])) \<and>
   store_getEndPoint [\<lparr>obj_command = ''M'', obj_points = [0]\<rparr>, \<lparr>obj_command = ''L'', obj_points = [1]\<rparr>] =
     Inr (Some 1) \<and>
   (\<exists>s'. store_getPath (Fin 30) linearProperty [] =
     ([], Inr (Some ([\<lparr>obj_command = ''M'', obj_points = [0]\<rparr>, \<lparr>obj_command = ''L'', obj_points = [1]\<rparr>],
               s'))) \<and>
     length s' = 2 \<and> x (s' ! 1) = Fin 24 \<and> y (s' ! 1) = Fin (- 100))"
proof -
  let ?path = "[\<lparr>obj_command = ''M'', obj_points = [0]\<rparr>, \<lparr>obj_command = ''L'', obj_points = [1]\<rparr>]"
  let ?s = "[\<lparr>x = Fin 0, y = Fin 0\<rparr>, \<lparr>x = Fin 24, y = Fin 100\<rparr>]"
  have 1: "1 < numKeys linearProperty" by (simp add: linearProperty_def)
  have 2: "store_getPath_built (Fin 30) linearProperty [] = ([], Inr (?path, ?s))"
    by (simp add: example_defs store_eval)
  have 3: "store_getEndPoint ?path = Inr (Some 1)" by (simp add: store_getEndPoint_def)
  from Point_fields_after_construction [OF 1 2 3]
  obtain s' where s': "store_getPath (Fin 30) linearProperty [] = ([], Inr (Some (?path, s')))"
    "length s' = length ?s" "\<forall>r. x (s' ! r) = x (?s ! r)"
    "\<forall>r < length ?s. y (s' ! r) =
        (if js_gt (y (?s ! 1)) (firstValue (keyValue linearProperty 1))
         then js_mul (y (?s ! r)) (Fin (- 1)) else y (?s ! r))"
    by blast
  from s'(2) have l: "length s' = 2" by simp
  from s'(3) have x1: "x (s' ! 1) = Fin 24" by simp
  from s'(4) have "y (s' ! 1) =
        (if js_gt (y (?s ! 1)) (firstValue (keyValue linearProperty 1))
         then js_mul (y (?s ! 1)) (Fin (- 1)) else y (?s ! 1))" by simp
  then have y1: "y (s' ! 1) = Fin (- 100)" by (simp add: linearProperty_def)
  from 1 2 3 s'(1) l x1 y1 show ?thesis by blast
qed

text \<open>
  The claim as it was stated, that no operation changes a Point, fails on a property
  that rises from 0 to 100: the Point made for the end of the line with \<open>y = 100\<close> is
  the same object, with \<open>y = -100\<close>, when \<open>getPath\<close> returns.
\<close>

theorem Point_fields_after_construction_counterexample:
  "store_getPath_built (Fin 30) linearProperty [] =
     ([], Inr ([\<lparr>obj_command = ''M'', obj_points = [0]\<rparr>, \<lparr>obj_command = ''L'', obj_points = [1]\<rparr>],
               [\<lparr>x = Fin 0, y = Fin 0\<rparr>, \<lparr>x = Fin 24, y = Fin 100\<rparr>])) \<and>
   store_getPath (Fin 30) linearProperty [] =
     ([], Inr (Some ([\<lparr>obj_command = ''M'', obj_points = [0]\<rparr>, \<lparr>obj_command = ''L'', obj_points = [1]\<rparr>],
               [\<lparr>x = Fin 0, y = Fin 0\<rparr>, \<lparr>x = Fin 24, y = Fin (- 100)\<rparr>]))) \<and>
   y \<lparr>x = Fin 24, y = Fin (- 100)\<rparr> \<noteq> y \<lparr>x = Fin 24, y = Fin 100\<rparr>"
  by (simp add: example_defs store_eval)


end
